theory Spec2Isabelle
  imports Complex_Main "HOL-Library.AList"
begin

section \<open>Python values\<close>

text \<open>
  The three stages of the pipeline (\<^verbatim>\<open>etl/validator.py\<close>, \<^verbatim>\<open>etl/cleaner.py\<close>,
  \<^verbatim>\<open>etl/transformer.py\<close>) work on a \<^verbatim>\<open>dict[str, Any]\<close>. The values that a record holds
  at some stage are strings and \<^verbatim>\<open>None\<close> (from the CSV reader), booleans (the flags),
  floats (after cleaning) and \<^verbatim>\<open>datetime.date\<close> objects (after transforming); the type
  \<open>pyval\<close> below has exactly these. No stage of the pipeline puts a value of another type
  (an integer, a list) into a record, and records with such values are not modelled.
  Logging has no influence on results and is left out.
\<close>

subsection \<open>Strings\<close>

text \<open>
  A Python \<^verbatim>\<open>str\<close> is modelled as a \<open>string\<close>, one character for each code point: the
  strings of the model are the ones over the code points below 256 (Latin-1).
  \<^verbatim>\<open>str.strip()\<close> removes the white space of \<^verbatim>\<open>str.isspace\<close>: below 256 that is tab, line
  feed, vertical tab, form feed, carriage return, the four separators 0x1C..0x1F, the blank,
  the next-line control 0x85 and the no-break space 0xA0. \<^verbatim>\<open>\d\<close> matches the digits 0..9
  (the only decimal digits below 256).
\<close>

definition is_space :: "char \<Rightarrow> bool" where
  "is_space c \<longleftrightarrow>
     c \<in> set [CHR 0x09, CHR 0x0A, CHR 0x0B, CHR 0x0C, CHR 0x0D,
               CHR 0x1C, CHR 0x1D, CHR 0x1E, CHR 0x1F, CHR 0x20, CHR 0x85, CHR 0xA0]"

definition str_strip :: "string \<Rightarrow> string" where
  "str_strip s = rev (dropWhile is_space (rev (dropWhile is_space s)))"

text \<open>
  \<^verbatim>\<open>str.upper()\<close> replaces every character by its upper case: the letters a..z, the
  Latin-1 letters 0xE0..0xFE (without the division sign 0xF7), whose capitals are 0x20 below
  them, and the sharp s 0xDF, whose upper case is the two letters \<^verbatim>\<open>SS\<close>; so the result
  can be longer than the string. Every other character below 256 is its own upper case, with
  two exceptions that the type cannot express: the capitals of the micro sign 0xB5 and of
  0xFF are the code points 0x39C and 0x178. The model leaves these two characters as they
  are; neither they nor their capitals occur in a word that the code compares with.
\<close>

definition lower_letters :: string where
  "lower_letters =
     ''abcdefghijklmnopqrstuvwxyz'' @
        [CHR 0xE0, CHR 0xE1, CHR 0xE2, CHR 0xE3, CHR 0xE4, CHR 0xE5, CHR 0xE6, CHR 0xE7,
         CHR 0xE8, CHR 0xE9, CHR 0xEA, CHR 0xEB, CHR 0xEC, CHR 0xED, CHR 0xEE, CHR 0xEF,
         CHR 0xF0, CHR 0xF1, CHR 0xF2, CHR 0xF3, CHR 0xF4, CHR 0xF5, CHR 0xF6, CHR 0xF8,
         CHR 0xF9, CHR 0xFA, CHR 0xFB, CHR 0xFC, CHR 0xFD, CHR 0xFE]"

definition upper_letters :: string where
  "upper_letters =
     ''ABCDEFGHIJKLMNOPQRSTUVWXYZ'' @
        [CHR 0xC0, CHR 0xC1, CHR 0xC2, CHR 0xC3, CHR 0xC4, CHR 0xC5, CHR 0xC6, CHR 0xC7,
         CHR 0xC8, CHR 0xC9, CHR 0xCA, CHR 0xCB, CHR 0xCC, CHR 0xCD, CHR 0xCE, CHR 0xCF,
         CHR 0xD0, CHR 0xD1, CHR 0xD2, CHR 0xD3, CHR 0xD4, CHR 0xD5, CHR 0xD6, CHR 0xD8,
         CHR 0xD9, CHR 0xDA, CHR 0xDB, CHR 0xDC, CHR 0xDD, CHR 0xDE]"

definition upper_char :: "char \<Rightarrow> string" where
  "upper_char c =
     (if c = CHR 0xDF then ''SS''
      else case map_of (zip lower_letters upper_letters) c of
        Some u \<Rightarrow> [u]
      | None \<Rightarrow> [c])"

definition str_upper :: "string \<Rightarrow> string" where
  "str_upper s = concat (map upper_char s)"

definition is_digit :: "char \<Rightarrow> bool" where
  "is_digit c \<longleftrightarrow> c \<in> set ''0123456789''"

definition digit_val :: "char \<Rightarrow> nat" where
  "digit_val c = of_char c - 48"

definition digit_char :: "nat \<Rightarrow> char" where
  "digit_char n = ''0123456789'' ! n"

subsection \<open>Floats\<close>

text \<open>
  A float is the real number it denotes, an infinity or NaN. Comparisons of floats (with each
  other and with the integer constants of the code) are exact in Python, and are modelled so:
  every comparison with NaN is false. The two conversions that depend on IEEE rounding,
  \<^verbatim>\<open>float(s)\<close> of a string and \<^verbatim>\<open>str(x)\<close> of a float, are parameters of the model (the
  record \<open>runtime\<close>), and so is the year that the \<^verbatim>\<open>strftime\<close> of the C library prints for
  \<^verbatim>\<open>%Y\<close>: with four digits on some platforms, without leading zeros on others (glibc).
  A theorem with a variable \<open>rt\<close> holds for every runtime.
\<close>

datatype pyfloat = Fin real | PosInf | NegInf | NaN

fun float_lt :: "pyfloat \<Rightarrow> pyfloat \<Rightarrow> bool" where
  "float_lt (Fin a) (Fin b) = (a < b)"
| "float_lt (Fin a) PosInf = True"
| "float_lt NegInf (Fin b) = True"
| "float_lt NegInf PosInf = True"
| "float_lt _ _ = False"

fun float_le :: "pyfloat \<Rightarrow> pyfloat \<Rightarrow> bool" where
  "float_le NaN _ = False"
| "float_le _ NaN = False"
| "float_le a b = (a = b \<or> float_lt a b)"

definition float_gt :: "pyfloat \<Rightarrow> pyfloat \<Rightarrow> bool" where
  "float_gt a b = float_lt b a"

record runtime =
  float_of_str :: "string \<Rightarrow> pyfloat option"
  str_of_float :: "pyfloat \<Rightarrow> string"
  strftime_Y :: "nat \<Rightarrow> string"

subsection \<open>Dates\<close>

record date =
  year :: nat
  month :: nat
  day :: nat

definition is_leap :: "nat \<Rightarrow> bool" where
  "is_leap y \<longleftrightarrow> y mod 4 = 0 \<and> (y mod 100 \<noteq> 0 \<or> y mod 400 = 0)"

definition days_in_month :: "nat \<Rightarrow> nat \<Rightarrow> nat" where
  "days_in_month y m =
     (if m = 2 then (if is_leap y then 29 else 28)
      else if m \<in> {4, 6, 9, 11} then 30 else 31)"

text \<open>The constructor of \<^verbatim>\<open>datetime\<close>; \<open>None\<close> is its \<^verbatim>\<open>ValueError\<close>.\<close>

definition make_date :: "nat \<Rightarrow> nat \<Rightarrow> nat \<Rightarrow> date option" where
  "make_date y m d =
     (if 1 \<le> y \<and> y \<le> 9999 \<and> 1 \<le> m \<and> m \<le> 12 \<and> 1 \<le> d \<and> d \<le> days_in_month y m
      then Some \<lparr>year = y, month = m, day = d\<rparr> else None)"

text \<open>
  \<^verbatim>\<open>datetime.strptime\<close> turns the format into a regular expression, matches it at the start
  of the string and rejects a string with characters left over. The directives are
  \<^verbatim>\<open>%Y = \d\d\d\d\<close>, \<^verbatim>\<open>%m = 1[0-2]|0[1-9]|[1-9]\<close> and
  \<^verbatim>\<open>%d = 3[0-1]|[1-2]\d|0[1-9]|[1-9]| [1-9]\<close>. In both formats of the code a directive is
  followed by a separator or by the end of the pattern, so the first alternative that matches
  is the only one that can lead to a match, and each directive is a function.
\<close>

fun match_Y :: "string \<Rightarrow> (nat \<times> string) option" where
  "match_Y (a # b # c # d # r) =
     (if is_digit a \<and> is_digit b \<and> is_digit c \<and> is_digit d
      then Some (1000 * digit_val a + 100 * digit_val b + 10 * digit_val c + digit_val d, r)
      else None)"
| "match_Y _ = None"

fun match_m :: "string \<Rightarrow> (nat \<times> string) option" where
  "match_m (a # b # r) =
     (if a = CHR ''1'' \<and> b \<in> set ''012'' then Some (10 + digit_val b, r)
      else if a = CHR ''0'' \<and> b \<in> set ''123456789'' then Some (digit_val b, r)
      else if a \<in> set ''123456789'' then Some (digit_val a, b # r)
      else None)"
| "match_m [a] = (if a \<in> set ''123456789'' then Some (digit_val a, []) else None)"
| "match_m [] = None"

fun match_d :: "string \<Rightarrow> (nat \<times> string) option" where
  "match_d (a # b # r) =
     (if a = CHR ''3'' \<and> b \<in> set ''01'' then Some (30 + digit_val b, r)
      else if a \<in> set ''12'' \<and> is_digit b then Some (10 * digit_val a + digit_val b, r)
      else if a = CHR ''0'' \<and> b \<in> set ''123456789'' then Some (digit_val b, r)
      else if a \<in> set ''123456789'' then Some (digit_val a, b # r)
      else if a = CHR '' '' \<and> b \<in> set ''123456789'' then Some (digit_val b, r)
      else None)"
| "match_d [a] = (if a \<in> set ''123456789'' then Some (digit_val a, []) else None)"
| "match_d [] = None"

fun match_lit :: "char \<Rightarrow> string \<Rightarrow> string option" where
  "match_lit c (x # r) = (if x = c then Some r else None)"
| "match_lit c [] = None"

text \<open>\<^verbatim>\<open>datetime.strptime(s, '%Y-%m-%d')\<close>; \<open>None\<close> is its \<^verbatim>\<open>ValueError\<close>.\<close>

definition strptime_ymd :: "string \<Rightarrow> date option" where
  "strptime_ymd s =
     (case match_Y s of None \<Rightarrow> None | Some (y, r1) \<Rightarrow>
      (case match_lit (CHR ''-'') r1 of None \<Rightarrow> None | Some r2 \<Rightarrow>
       (case match_m r2 of None \<Rightarrow> None | Some (m, r3) \<Rightarrow>
        (case match_lit (CHR ''-'') r3 of None \<Rightarrow> None | Some r4 \<Rightarrow>
         (case match_d r4 of None \<Rightarrow> None | Some (d, r5) \<Rightarrow>
            if r5 \<noteq> [] then None else make_date y m d)))))"

text \<open>\<^verbatim>\<open>datetime.strptime(s, '%d/%m/%Y')\<close>.\<close>

definition strptime_dmy :: "string \<Rightarrow> date option" where
  "strptime_dmy s =
     (case match_d s of None \<Rightarrow> None | Some (d, r1) \<Rightarrow>
      (case match_lit (CHR ''/'') r1 of None \<Rightarrow> None | Some r2 \<Rightarrow>
       (case match_m r2 of None \<Rightarrow> None | Some (m, r3) \<Rightarrow>
        (case match_lit (CHR ''/'') r3 of None \<Rightarrow> None | Some r4 \<Rightarrow>
         (case match_Y r4 of None \<Rightarrow> None | Some (y, r5) \<Rightarrow>
            if r5 \<noteq> [] then None else make_date y m d)))))"

definition pad2 :: "nat \<Rightarrow> string" where
  "pad2 n = [digit_char (n div 10 mod 10), digit_char (n mod 10)]"

definition pad4 :: "nat \<Rightarrow> string" where
  "pad4 n = [digit_char (n div 1000 mod 10), digit_char (n div 100 mod 10),
             digit_char (n div 10 mod 10), digit_char (n mod 10)]"

text \<open>\<^verbatim>\<open>str(d)\<close> of a date, which is \<^verbatim>\<open>d.isoformat()\<close>: the year with four digits.\<close>

definition isoformat :: "date \<Rightarrow> string" where
  "isoformat dt = pad4 (year dt) @ ''-'' @ pad2 (month dt) @ ''-'' @ pad2 (day dt)"

text \<open>\<^verbatim>\<open>dt.strftime('%Y-%m-%d')\<close>: month and day with two digits, the year as the C library
  prints it.\<close>

definition strftime_ymd :: "runtime \<Rightarrow> date \<Rightarrow> string" where
  "strftime_ymd rt dt =
     strftime_Y rt (year dt) @ ''-'' @ pad2 (month dt) @ ''-'' @ pad2 (day dt)"

definition days_before_year :: "nat \<Rightarrow> nat" where
  "days_before_year y =
     (y - 1) * 365 + (y - 1) div 4 - (y - 1) div 100 + (y - 1) div 400"

definition days_before_month :: "nat \<Rightarrow> nat \<Rightarrow> nat" where
  "days_before_month y m = sum_list (map (days_in_month y) [1..<m])"

definition toordinal :: "date \<Rightarrow> nat" where
  "toordinal dt = days_before_year (year dt) + days_before_month (year dt) (month dt) + day dt"

text \<open>\<^verbatim>\<open>date.weekday()\<close>: Monday is 0.\<close>

definition weekday :: "date \<Rightarrow> nat" where
  "weekday dt = (toordinal dt + 6) mod 7"

subsection \<open>Values, truth, conversions\<close>

datatype pyval = PNone | PStr string | PBool bool | PFloat pyfloat | PDate date

datatype error =
    InvalidTransactionIDError
  | InvalidDateFormatError
  | InvalidCurrencyError
  | InvalidAmountError
  | ValueError
  | TypeError
  | AttributeError

text \<open>\<^verbatim>\<open>bool(v)\<close>, which \<^verbatim>\<open>if v\<close> and \<^verbatim>\<open>not v\<close> use.\<close>

fun truthy :: "pyval \<Rightarrow> bool" where
  "truthy PNone = False"
| "truthy (PStr s) = (s \<noteq> [])"
| "truthy (PBool b) = b"
| "truthy (PFloat f) = (f \<noteq> Fin 0)"
| "truthy (PDate d) = True"

text \<open>\<^verbatim>\<open>isinstance(v, str)\<close>.\<close>

fun is_str :: "pyval \<Rightarrow> bool" where
  "is_str (PStr s) = True"
| "is_str _ = False"

text \<open>\<^verbatim>\<open>str(v)\<close>.\<close>

fun py_str :: "runtime \<Rightarrow> pyval \<Rightarrow> string" where
  "py_str rt PNone = ''None''"
| "py_str rt (PStr s) = s"
| "py_str rt (PBool b) = (if b then ''True'' else ''False'')"
| "py_str rt (PFloat f) = str_of_float rt f"
| "py_str rt (PDate d) = isoformat d"

text \<open>\<^verbatim>\<open>float(v)\<close>: a \<^verbatim>\<open>ValueError\<close> for a string that is no number, a \<^verbatim>\<open>TypeError\<close>
  for \<^verbatim>\<open>None\<close> and for a date.\<close>

fun py_float :: "runtime \<Rightarrow> pyval \<Rightarrow> error + pyfloat" where
  "py_float rt PNone = Inl TypeError"
| "py_float rt (PStr s) = (case float_of_str rt s of None \<Rightarrow> Inl ValueError | Some f \<Rightarrow> Inr f)"
| "py_float rt (PBool b) = Inr (Fin (if b then 1 else 0))"
| "py_float rt (PFloat f) = Inr f"
| "py_float rt (PDate d) = Inl TypeError"

text \<open>A \<^verbatim>\<open>dict\<close> keeps its items in insertion order; every key occurs once.\<close>

type_synonym txn = "(string \<times> pyval) list"

text \<open>\<^verbatim>\<open>d.get(k, default)\<close>.\<close>

definition dict_get :: "txn \<Rightarrow> string \<Rightarrow> pyval \<Rightarrow> pyval" where
  "dict_get d k dflt = (case map_of d k of None \<Rightarrow> dflt | Some v \<Rightarrow> v)"

section \<open>The validator (\<^verbatim>\<open>etl/validator.py\<close>)\<close>

definition VALID_CURRENCIES :: "string set" where
  "VALID_CURRENCIES = {''IDR'', ''USD'', ''SGD''}"

definition VALID_DIRECTIONS :: "string set" where
  "VALID_DIRECTIONS = {''DEBIT'', ''CREDIT''}"

definition VALID_ACCOUNT_TYPES :: "string set" where
  "VALID_ACCOUNT_TYPES = {''SAVINGS'', ''CURRENT'', ''CREDIT_CARD'', ''LOAN''}"

definition ANOMALY_THRESHOLD :: real where
  "ANOMALY_THRESHOLD = 10000000"

text \<open>
  \<^verbatim>\<open>re.match(TRANSACTION_ID_PATTERN, s)\<close> for the pattern \<^verbatim>\<open>^TXN\d{7}$\<close>. Without the
  multi-line flag \<^verbatim>\<open>$\<close> matches at the end of the string and also before a line feed that
  ends the string.
\<close>

definition match_transaction_id_pattern :: "string \<Rightarrow> bool" where
  "match_transaction_id_pattern s =
     (let t = (if s \<noteq> [] \<and> last s = CHR 0x0A then butlast s else s)
      in length t = 10 \<and> take 3 t = ''TXN'' \<and> list_all is_digit (drop 3 t))"

text \<open>The first equation is the case \<^verbatim>\<open>isinstance(transaction_id, str)\<close>; there
  \<^verbatim>\<open>not transaction_id\<close> means the empty string.\<close>

fun validate_transaction_id :: "pyval \<Rightarrow> error + bool" where
  "validate_transaction_id (PStr s) =
     (if s = [] then Inl InvalidTransactionIDError
      else if \<not> match_transaction_id_pattern (str_strip s) then Inl InvalidTransactionIDError
      else Inr True)"
| "validate_transaction_id v = Inl InvalidTransactionIDError"

fun validate_date :: "pyval \<Rightarrow> error + bool" where
  "validate_date (PStr s) =
     (if s = [] then Inl InvalidDateFormatError
      else case strptime_ymd (str_strip s) of
        Some dt \<Rightarrow> Inr True
      | None \<Rightarrow>
         (case strptime_dmy (str_strip s) of
            Some dt \<Rightarrow> Inr True
          | None \<Rightarrow> Inl InvalidDateFormatError))"
| "validate_date v = Inl InvalidDateFormatError"

text \<open>\<^verbatim>\<open>isinstance(v, str) and not v.strip()\<close>.\<close>

fun is_blank_str :: "pyval \<Rightarrow> bool" where
  "is_blank_str (PStr s) = (str_strip s = [])"
| "is_blank_str v = False"

definition validate_amount :: "runtime \<Rightarrow> pyval \<Rightarrow> error + bool" where
  "validate_amount rt amount =
     (if amount = PNone \<or> is_blank_str amount then Inl InvalidAmountError
      else case py_float rt amount of
        Inl e \<Rightarrow> (if e = ValueError \<or> e = TypeError then Inl InvalidAmountError else Inl e)
      | Inr amount_float \<Rightarrow>
          if float_lt amount_float (Fin 0) then Inl InvalidAmountError else Inr True)"

fun validate_currency :: "pyval \<Rightarrow> error + bool" where
  "validate_currency (PStr s) =
     (if s = [] then Inl InvalidCurrencyError
      else if str_upper (str_strip s) \<notin> VALID_CURRENCIES then Inl InvalidCurrencyError
      else Inr True)"
| "validate_currency v = Inl InvalidCurrencyError"

fun validate_direction :: "pyval \<Rightarrow> bool" where
  "validate_direction (PStr s) =
     (if s \<noteq> [] \<and> str_upper (str_strip s) \<notin> VALID_DIRECTIONS then False else True)"
| "validate_direction v = True"

fun validate_account_type :: "pyval \<Rightarrow> bool" where
  "validate_account_type (PStr s) =
     (if s \<noteq> [] \<and> str_upper (str_strip s) \<notin> VALID_ACCOUNT_TYPES then False else True)"
| "validate_account_type v = True"

definition check_amount_anomaly :: "runtime \<Rightarrow> pyval \<Rightarrow> error + bool" where
  "check_amount_anomaly rt amount =
     (case py_float rt amount of
        Inl e \<Rightarrow> Inl e
      | Inr x \<Rightarrow> Inr (float_gt x (Fin ANOMALY_THRESHOLD)))"

text \<open>
  \<^verbatim>\<open>validate_transaction\<close> changes the dictionary of its caller in place and returns it. The
  model returns the dictionary as the caller sees it after the call, and the outcome: the
  exception raised, or the returned dictionary. The only assignment to the dictionary is the
  one of \<^verbatim>\<open>amount_anomaly\<close>. The default of the last \<^verbatim>\<open>get\<close> is the integer 0, whose float
  is 0.0.
\<close>

definition validate_transaction :: "runtime \<Rightarrow> txn \<Rightarrow> txn \<times> (error + txn)" where
  "validate_transaction rt transaction =
     (case validate_transaction_id (dict_get transaction ''transaction_id'' (PStr [])) of
        Inl e \<Rightarrow> (transaction, Inl e)
      | Inr ok1 \<Rightarrow>
     (case validate_date (dict_get transaction ''transaction_date'' (PStr [])) of
        Inl e \<Rightarrow> (transaction, Inl e)
      | Inr ok2 \<Rightarrow>
     (case validate_amount rt (dict_get transaction ''amount'' PNone) of
        Inl e \<Rightarrow> (transaction, Inl e)
      | Inr ok3 \<Rightarrow>
     (case validate_currency (dict_get transaction ''currency'' (PStr [])) of
        Inl e \<Rightarrow> (transaction, Inl e)
      | Inr ok4 \<Rightarrow>
     (let ok5 = validate_direction (dict_get transaction ''direction'' (PStr []));
          ok6 = validate_account_type (dict_get transaction ''account_type'' (PStr []))
      in case check_amount_anomaly rt (dict_get transaction ''amount'' (PFloat (Fin 0))) of
           Inl e \<Rightarrow> (transaction, Inl e)
         | Inr anomaly \<Rightarrow>
             (let transaction' = AList.update ''amount_anomaly'' (PBool anomaly) transaction
              in (transaction', Inr transaction')))))))"

section \<open>The cleaner (\<^verbatim>\<open>etl/cleaner.py\<close>)\<close>

fun trim_whitespace :: "pyval \<Rightarrow> pyval" where
  "trim_whitespace (PStr s) = PStr (str_strip s)"
| "trim_whitespace v = v"

definition normalize_date :: "runtime \<Rightarrow> pyval \<Rightarrow> pyval" where
  "normalize_date rt date_str =
     (if \<not> truthy date_str then PNone
      else let s = str_strip (py_str rt date_str)
           in case strptime_ymd s of
                Some dt \<Rightarrow> PStr (strftime_ymd rt dt)
              | None \<Rightarrow>
                 (case strptime_dmy s of
                    Some dt \<Rightarrow> PStr (strftime_ymd rt dt)
                  | None \<Rightarrow> PNone))"

definition normalize_currency :: "runtime \<Rightarrow> pyval \<Rightarrow> pyval" where
  "normalize_currency rt currency =
     (if \<not> truthy currency then PNone
      else let currency_clean = str_upper (str_strip (py_str rt currency))
           in if currency_clean \<notin> {''IDR'', ''USD'', ''SGD''} then PNone
              else PStr currency_clean)"

definition clean_numeric :: "runtime \<Rightarrow> pyval \<Rightarrow> error + pyval" where
  "clean_numeric rt v =
     (if v = PNone \<or> is_blank_str v then Inr PNone
      else case py_float rt v of
        Inr x \<Rightarrow> Inr (PFloat x)
      | Inl e \<Rightarrow> (if e = ValueError \<or> e = TypeError then Inr PNone else Inl e))"

definition clean_merchant_category :: "runtime \<Rightarrow> pyval \<Rightarrow> pyval" where
  "clean_merchant_category rt merchant_category =
     (if \<not> truthy merchant_category \<or> str_strip (py_str rt merchant_category) = []
      then PStr ''Unknown''
      else PStr (str_strip (py_str rt merchant_category)))"

text \<open>The method call \<^verbatim>\<open>v.upper()\<close>: only a string has the method.\<close>

fun py_upper :: "pyval \<Rightarrow> error + pyval" where
  "py_upper (PStr s) = Inr (PStr (str_upper s))"
| "py_upper v = Inl AttributeError"

text \<open>The body of the loop of \<^verbatim>\<open>clean_transaction\<close>: the value stored under \<open>key\<close>.\<close>

definition clean_field :: "runtime \<Rightarrow> string \<Rightarrow> pyval \<Rightarrow> error + pyval" where
  "clean_field rt key v =
     (if key \<in> set [''transaction_id'', ''customer_id'', ''account_id'', ''channel'',
                     ''region'', ''txn_type'']
      then Inr (trim_whitespace v)
      else if key \<in> set [''transaction_date'', ''value_date''] then Inr (normalize_date rt v)
      else if key = ''currency'' then Inr (normalize_currency rt v)
      else if key \<in> set [''amount'', ''risk_score''] then clean_numeric rt v
      else if key = ''merchant_category'' then Inr (clean_merchant_category rt v)
      else if key \<in> set [''account_type'', ''direction'']
      then (if truthy v then py_upper (trim_whitespace v) else Inr v)
      else Inr (if is_str v then trim_whitespace v else v))"

text \<open>The loop over \<^verbatim>\<open>transaction.items()\<close>, which fills the dictionary \<open>cleaned\<close>.\<close>

fun clean_items :: "runtime \<Rightarrow> txn \<Rightarrow> txn \<Rightarrow> error + txn" where
  "clean_items rt [] cleaned = Inr cleaned"
| "clean_items rt ((key, v) # items) cleaned =
     (case clean_field rt key v of
        Inl e \<Rightarrow> Inl e
      | Inr v' \<Rightarrow> clean_items rt items (AList.update key v' cleaned))"

definition clean_transaction :: "runtime \<Rightarrow> txn \<Rightarrow> error + txn" where
  "clean_transaction rt transaction = clean_items rt transaction []"

section \<open>The transformer (\<^verbatim>\<open>etl/transformer.py\<close>)\<close>

definition convert_date_to_date_object :: "runtime \<Rightarrow> pyval \<Rightarrow> date option" where
  "convert_date_to_date_object rt date_str =
     (if \<not> truthy date_str then None
      else strptime_ymd (str_strip (py_str rt date_str)))"

definition convert_amount_to_float :: "runtime \<Rightarrow> pyval \<Rightarrow> error + pyfloat option" where
  "convert_amount_to_float rt amount =
     (if amount = PNone then Inr None
      else case py_float rt amount of
        Inr x \<Rightarrow> Inr (Some x)
      | Inl e \<Rightarrow> (if e = ValueError \<or> e = TypeError then Inr None else Inl e))"

definition convert_risk_score_to_float :: "runtime \<Rightarrow> pyval \<Rightarrow> error + pyfloat option" where
  "convert_risk_score_to_float rt risk_score =
     (if risk_score = PNone \<or> is_blank_str risk_score then Inr None
      else case py_float rt risk_score of
        Inr x \<Rightarrow> Inr (Some x)
      | Inl e \<Rightarrow> (if e = ValueError \<or> e = TypeError then Inr None else Inl e))"

text \<open>The functions on an \<^verbatim>\<open>Optional[float]\<close> take a \<open>pyfloat option\<close>.\<close>

fun is_large_transaction :: "pyfloat option \<Rightarrow> bool" where
  "is_large_transaction None = False"
| "is_large_transaction (Some amount) = float_gt amount (Fin 5000000)"

definition is_crossborder_transaction :: "runtime \<Rightarrow> pyval \<Rightarrow> bool" where
  "is_crossborder_transaction rt currency =
     (if \<not> truthy currency then False
      else str_upper (str_strip (py_str rt currency)) \<noteq> ''IDR'')"

text \<open>A date object is always true, so \<^verbatim>\<open>not date_obj\<close> means \<^verbatim>\<open>None\<close>.\<close>

fun get_transaction_day :: "date option \<Rightarrow> string option" where
  "get_transaction_day None = None"
| "get_transaction_day (Some date_obj) =
     Some ([''Monday'', ''Tuesday'', ''Wednesday'', ''Thursday'', ''Friday'', ''Saturday'',
            ''Sunday''] ! weekday date_obj)"

text \<open>
  \<^verbatim>\<open>math.log\<close> of a float, by its specification: the natural logarithm, a \<^verbatim>\<open>ValueError\<close>
  outside the domain. The rounding of the result is not modelled.
\<close>

fun math_log :: "pyfloat \<Rightarrow> error + pyfloat" where
  "math_log (Fin x) = (if 0 < x then Inr (Fin (ln x)) else Inl ValueError)"
| "math_log PosInf = Inr PosInf"
| "math_log NegInf = Inl ValueError"
| "math_log NaN = Inr NaN"

fun calculate_amount_log :: "pyfloat option \<Rightarrow> error + pyfloat option" where
  "calculate_amount_log None = Inr None"
| "calculate_amount_log (Some amount) =
     (if float_le amount (Fin 0) then Inr None
      else case math_log amount of
        Inr r \<Rightarrow> Inr (Some r)
      | Inl e \<Rightarrow> (if e = ValueError \<or> e = TypeError then Inr None else Inl e))"

fun of_opt_float :: "pyfloat option \<Rightarrow> pyval" where
  "of_opt_float None = PNone"
| "of_opt_float (Some x) = PFloat x"

fun of_opt_date :: "date option \<Rightarrow> pyval" where
  "of_opt_date None = PNone"
| "of_opt_date (Some d) = PDate d"

fun of_opt_str :: "string option \<Rightarrow> pyval" where
  "of_opt_str None = PNone"
| "of_opt_str (Some s) = PStr s"

text \<open>
  \<^verbatim>\<open>transform_transaction\<close> works on a copy, so the dictionary of the caller is not changed.
  Where the code reads \<^verbatim>\<open>transformed['amount']\<close> and \<^verbatim>\<open>transformed['transaction_date']\<close>
  back, the model uses the values just stored there.
\<close>

definition transform_transaction :: "runtime \<Rightarrow> txn \<Rightarrow> error + txn" where
  "transform_transaction rt transaction =
     (let date_obj = convert_date_to_date_object rt (dict_get transaction ''transaction_date'' PNone);
          t1 = AList.update ''transaction_date'' (of_opt_date date_obj) transaction
      in case convert_amount_to_float rt (dict_get t1 ''amount'' PNone) of
        Inl e \<Rightarrow> Inl e
      | Inr amount \<Rightarrow>
     (let t2 = AList.update ''amount'' (of_opt_float amount) t1
      in case convert_risk_score_to_float rt (dict_get t2 ''risk_score'' PNone) of
        Inl e \<Rightarrow> Inl e
      | Inr risk_score \<Rightarrow>
     (let t3 = AList.update ''risk_score'' (of_opt_float risk_score) t2;
          t4 = AList.update ''is_large_transaction'' (PBool (is_large_transaction amount)) t3;
          t5 = AList.update ''is_crossborder''
                 (PBool (is_crossborder_transaction rt (dict_get t4 ''currency'' (PStr [])))) t4;
          t6 = AList.update ''transaction_day'' (of_opt_str (get_transaction_day date_obj)) t5
      in case calculate_amount_log amount of
        Inl e \<Rightarrow> Inl e
      | Inr amount_log \<Rightarrow> Inr (AList.update ''amount_log'' (of_opt_float amount_log) t6))))"

section \<open>A runtime for the examples\<close>

text \<open>
  The examples below are evaluated with a runtime that reads the plain decimal literals
  (an optional sign, digits, an optional fraction) and the special values \<^verbatim>\<open>inf\<close>,
  \<^verbatim>\<open>infinity\<close> and \<^verbatim>\<open>nan\<close>, as \<^verbatim>\<open>float\<close> does after it has removed the white space
  around the literal (the white space of \<^verbatim>\<open>strip\<close> without the separators 0x1C..0x1F). The value of a literal is the number it denotes, which for
  the literals of the examples is a float. No example prints a finite float. The year of
  \<^verbatim>\<open>strftime\<close> is the one of glibc: the decimal number without leading zeros (a datetime
  has a year from 1 to 9999).
\<close>

definition is_float_space :: "char \<Rightarrow> bool" where
  "is_float_space c \<longleftrightarrow>
     c \<in> set [CHR 0x09, CHR 0x0A, CHR 0x0B, CHR 0x0C, CHR 0x0D, CHR 0x20, CHR 0x85, CHR 0xA0]"

definition glibc_Y :: "nat \<Rightarrow> string" where
  "glibc_Y y = dropWhile (\<lambda>c. c = CHR ''0'') (pad4 y)"

definition digits_val :: "string \<Rightarrow> nat" where
  "digits_val ds = foldl (\<lambda>n c. 10 * n + digit_val c) 0 ds"

definition unsigned_literal :: "string \<Rightarrow> real option" where
  "unsigned_literal u =
     (let ip = takeWhile is_digit u; r = dropWhile is_digit u
      in if r = [] then (if ip = [] then None else Some (real (digits_val ip)))
         else if hd r = CHR ''.'' \<and> list_all is_digit (tl r) \<and> (ip \<noteq> [] \<or> tl r \<noteq> [])
         then Some (real (digits_val (ip @ tl r)) / 10 ^ length (tl r))
         else None)"

definition float_of_literal :: "string \<Rightarrow> pyfloat option" where
  "float_of_literal s =
     (let t = rev (dropWhile is_float_space (rev (dropWhile is_float_space s)));
          neg = (t \<noteq> [] \<and> hd t = CHR ''-'');
          u = (if t \<noteq> [] \<and> hd t \<in> set ''+-'' then tl t else t)
      in if str_upper u \<in> {''INF'', ''INFINITY''} then Some (if neg then NegInf else PosInf)
         else if str_upper u = ''NAN'' then Some NaN
         else case unsigned_literal u of
           None \<Rightarrow> None
         | Some x \<Rightarrow> Some (Fin (if neg then - x else x)))"

definition example_str_of_float :: "pyfloat \<Rightarrow> string" where
  "example_str_of_float x =
     (case x of NaN \<Rightarrow> ''nan'' | PosInf \<Rightarrow> ''inf'' | NegInf \<Rightarrow> ''-inf'' | Fin r \<Rightarrow> ''float'')"

definition example_runtime :: runtime where
  "example_runtime =
     \<lparr>float_of_str = float_of_literal, str_of_float = example_str_of_float,
      strftime_Y = glibc_Y\<rparr>"

section \<open>The statements of the specification\<close>

text \<open>
  The conditions that the specification puts on the mandatory fields, in its own words: the
  identifier is \<^verbatim>\<open>TXN\<close> followed by exactly seven digits, the date parses under one of the two
  formats, the amount is not empty, can be read as a number and is at least 0, the currency
  is one of the three codes. Identifier, date and currency are taken after trimming, as the
  specification says for the first and the last and as the code does for the date.
\<close>

definition spec_txn_id :: "string \<Rightarrow> bool" where
  "spec_txn_id s \<longleftrightarrow>
     take 3 s = ''TXN'' \<and> length (drop 3 s) = 7 \<and> list_all is_digit (drop 3 s)"

definition spec_two_format_date :: "string \<Rightarrow> bool" where
  "spec_two_format_date s =
     (case strptime_ymd s of
        Some d \<Rightarrow> True
      | None \<Rightarrow> (case strptime_dmy s of Some d \<Rightarrow> True | None \<Rightarrow> False))"

definition id_violation :: "txn \<Rightarrow> bool" where
  "id_violation tx =
     (case map_of tx ''transaction_id'' of
        Some (PStr s) \<Rightarrow> \<not> spec_txn_id (str_strip s)
      | _ \<Rightarrow> True)"

definition date_violation :: "txn \<Rightarrow> bool" where
  "date_violation tx =
     (case map_of tx ''transaction_date'' of
        Some (PStr s) \<Rightarrow> \<not> spec_two_format_date (str_strip s)
      | _ \<Rightarrow> True)"

text \<open>An amount violates its rule unless it is not empty, can be read as a number and is at
  least 0.\<close>

definition amount_violation :: "runtime \<Rightarrow> txn \<Rightarrow> bool" where
  "amount_violation rt tx =
     (case map_of tx ''amount'' of
        None \<Rightarrow> True
      | Some a \<Rightarrow>
          a = PNone \<or> is_blank_str a \<or>
          (case py_float rt a of Inl e \<Rightarrow> True | Inr x \<Rightarrow> \<not> float_le (Fin 0) x))"

text \<open>The three cases that the specification lists for \<^verbatim>\<open>InvalidAmount\<close>: the amount is
  empty, cannot be read as a number, or is negative.\<close>

definition amount_rejected :: "runtime \<Rightarrow> txn \<Rightarrow> bool" where
  "amount_rejected rt tx =
     (case map_of tx ''amount'' of
        None \<Rightarrow> True
      | Some a \<Rightarrow>
          a = PNone \<or> is_blank_str a \<or>
          (case py_float rt a of Inl e \<Rightarrow> True | Inr x \<Rightarrow> float_lt x (Fin 0)))"

definition currency_violation :: "txn \<Rightarrow> bool" where
  "currency_violation tx =
     (case map_of tx ''currency'' of
        Some (PStr s) \<Rightarrow> str_upper (str_strip s) \<notin> {''IDR'', ''USD'', ''SGD''}
      | _ \<Rightarrow> True)"

text \<open>The cross-border flag as claim C7 words it: the currency, trimmed and in upper case,
  is not null, not empty and not \<^verbatim>\<open>IDR\<close>.\<close>

definition claimed_is_crossborder :: "string option \<Rightarrow> bool" where
  "claimed_is_crossborder c =
     (case c of
        None \<Rightarrow> False
      | Some s \<Rightarrow> str_upper (str_strip s) \<noteq> [] \<and> str_upper (str_strip s) \<noteq> ''IDR'')"

text \<open>
  A dictionary has every key once. The records that the specification gives to the cleaner
  are the raw records, which map a field name to a string or to null, with the boolean
  \<^verbatim>\<open>amount_anomaly\<close> that the validator has added. The fields that the cleaner converts to
  upper case are textual when a true value in them is a string. A value of a date, currency
  or numeric field is unparseable when, as a string, it parses under neither date format, is
  none of the three codes, or cannot be converted to a float.
\<close>

definition is_dict :: "txn \<Rightarrow> bool" where
  "is_dict tx \<longleftrightarrow> distinct (map fst tx)"

fun is_bool :: "pyval \<Rightarrow> bool" where
  "is_bool (PBool b) = True"
| "is_bool _ = False"

definition spec_record :: "txn \<Rightarrow> bool" where
  "spec_record tx \<longleftrightarrow>
     is_dict tx \<and>
     list_all (\<lambda>(k, v). v = PNone \<or> is_str v \<or> (k = ''amount_anomaly'' \<and> is_bool v)) tx"

definition upper_fields_textual :: "txn \<Rightarrow> bool" where
  "upper_fields_textual tx =
     list_all
       (\<lambda>(k, v). k \<in> set [''account_type'', ''direction''] \<longrightarrow> \<not> truthy v \<or> is_str v) tx"

definition unparseable :: "runtime \<Rightarrow> string \<Rightarrow> pyval \<Rightarrow> bool" where
  "unparseable rt key v =
     (if key \<in> set [''transaction_date'', ''value_date'']
      then \<not> spec_two_format_date (str_strip (py_str rt v))
      else if key = ''currency''
      then str_upper (str_strip (py_str rt v)) \<notin> {''IDR'', ''USD'', ''SGD''}
      else if key \<in> set [''amount'', ''risk_score''] then isl (py_float rt v)
      else False)"

text \<open>A runtime pads the year when its \<^verbatim>\<open>strftime\<close> prints every year of a datetime with
  four digits.\<close>

definition pads_year :: "runtime \<Rightarrow> bool" where
  "pads_year rt \<longleftrightarrow> (\<forall>y. 1 \<le> y \<and> y \<le> 9999 \<longrightarrow> strftime_Y rt y = pad4 y)"

text \<open>The value that \<^verbatim>\<open>clean_transaction\<close> stores for a field when the loop body does not
  raise.\<close>

definition clean_value :: "runtime \<Rightarrow> string \<Rightarrow> pyval \<Rightarrow> pyval" where
  "clean_value rt k v = (case clean_field rt k v of Inr v' \<Rightarrow> v' | Inl e \<Rightarrow> v)"

text \<open>The keys that \<^verbatim>\<open>transform_transaction\<close> assigns.\<close>

definition transform_keys :: "string set" where
  "transform_keys = {''transaction_date'', ''amount'', ''risk_score'', ''is_large_transaction'',
                     ''is_crossborder'', ''transaction_day'', ''amount_log''}"

section \<open>Example records\<close>

definition example_txn :: txn where
  "example_txn =
     [(''transaction_id'', PStr ''TXN0000001''), (''transaction_date'', PStr ''21/02/2024''),
      (''amount'', PStr ''5000.50''), (''currency'', PStr ''idr''),
      (''direction'', PStr ''SIDEWAYS''), (''account_type'', PStr ''PIGGY'')]"

definition large_amount_txn :: txn where
  "large_amount_txn =
     [(''transaction_id'', PStr ''TXN0000001''), (''transaction_date'', PStr ''2024-02-21''),
      (''customer_id'', PStr ''CUST00001''), (''account_id'', PStr ''ACC00001''),
      (''amount'', PStr ''15000000.00''), (''currency'', PStr ''IDR'')]"

definition nan_amount_txn :: txn where
  "nan_amount_txn =
     [(''transaction_id'', PStr ''TXN0000001''), (''transaction_date'', PStr ''2024-02-21''),
      (''amount'', PStr ''nan''), (''currency'', PStr ''IDR'')]"

definition nan_amount_eur_txn :: txn where
  "nan_amount_eur_txn =
     [(''transaction_id'', PStr ''TXN0000001''), (''transaction_date'', PStr ''2024-02-21''),
      (''amount'', PStr ''nan''), (''currency'', PStr ''EUR'')]"

definition invalid_date_amount_txn :: txn where
  "invalid_date_amount_txn =
     [(''transaction_id'', PStr ''TXN0000001''), (''transaction_date'', PStr ''2024-13-45''),
      (''amount'', PStr ''-5000.50''), (''currency'', PStr ''EUR'')]"

definition invalid_id_txn :: txn where
  "invalid_id_txn =
     [(''transaction_id'', PStr ''INVALID123''), (''transaction_date'', PStr ''2024-02-21''),
      (''amount'', PStr ''5000.50''), (''currency'', PStr ''IDR'')]"

definition invalid_currency_txn :: txn where
  "invalid_currency_txn =
     [(''transaction_id'', PStr ''TXN0000001''), (''transaction_date'', PStr ''2024-02-21''),
      (''amount'', PStr ''5000.50''), (''currency'', PStr ''EUR'')]"

definition usd_txn :: txn where
  "usd_txn = [(''transaction_date'', PStr ''2024-02-21''), (''amount'', PStr ''5000.50''),
              (''currency'', PStr ''USD'')]"

definition flagged_txn :: txn where
  "flagged_txn = [(''transaction_date'', PNone), (''amount'', PNone), (''risk_score'', PNone),
                  (''is_large_transaction'', PStr ''yes'')]"

definition blank_currency_txn :: txn where
  "blank_currency_txn = [(''currency'', PStr ''   '')]"

definition bool_direction_txn :: txn where
  "bool_direction_txn = [(''transaction_id'', PStr ''TXN0000001''), (''direction'', PBool True)]"

definition garbage_txn :: txn where
  "garbage_txn =
     [(''transaction_date'', PStr ''invalid''), (''currency'', PStr ''EUR''),
      (''amount'', PStr ''abc''), (''risk_score'', PStr ''''), (''direction'', PNone),
      (''amount_anomaly'', PBool False)]"

definition old_year_txn :: txn where
  "old_year_txn = [(''transaction_date'', PStr ''0999-01-05'')]"

definition messy_txn :: txn where
  "messy_txn =
     [(''transaction_id'', PStr ''  TXN0000001  ''), (''transaction_date'', PStr ''21/02/2024''),
      (''amount'', PStr ''5000.50''), (''currency'', PStr ''idr''),
      (''merchant_category'', PStr ''''), (''direction'', PStr '' debit ''),
      (''amount_anomaly'', PBool False)]"

definition tidy_txn :: txn where
  "tidy_txn =
     [(''transaction_id'', PStr ''TXN0000001''), (''transaction_date'', PStr ''2024-02-21''),
      (''amount'', PFloat (Fin 5000.5)), (''currency'', PStr ''IDR''),
      (''merchant_category'', PStr ''Unknown''), (''direction'', PStr ''DEBIT''),
      (''amount_anomaly'', PBool False)]"

section \<open>Evaluation and basic facts\<close>

lemmas eval_defs = str_strip_def is_space_def is_digit_def digit_val_def digit_char_def
  str_upper_def upper_char_def lower_letters_def upper_letters_def float_of_literal_def unsigned_literal_def digits_val_def
  example_runtime_def example_str_of_float_def strptime_ymd_def strptime_dmy_def make_date_def
  days_in_month_def is_leap_def strftime_ymd_def isoformat_def pad2_def pad4_def glibc_Y_def
  is_float_space_def

lemma str_strip_Nil [simp]: "str_strip [] = []"
  by (simp add: str_strip_def)

lemma str_strip_last: "str_strip s \<noteq> [] \<Longrightarrow> \<not> is_space (last (str_strip s))"
proof -
  assume ne: "str_strip s \<noteq> []"
  let ?u = "dropWhile is_space (rev (dropWhile is_space s))"
  from ne have u: "?u \<noteq> []" by (simp add: str_strip_def)
  then have "\<not> is_space (hd ?u)" by (rule hd_dropWhile)
  moreover have "last (str_strip s) = hd ?u" using u by (simp add: str_strip_def last_rev)
  ultimately show ?thesis by simp
qed

lemma str_strip_hd: "str_strip s \<noteq> [] \<Longrightarrow> \<not> is_space (hd (str_strip s))"
proof -
  assume ne: "str_strip s \<noteq> []"
  let ?v = "dropWhile is_space s"
  let ?u = "dropWhile is_space (rev ?v)"
  from ne have u: "?u \<noteq> []" by (simp add: str_strip_def)
  then have v: "?v \<noteq> []" by (cases "?v") auto
  then have nv: "\<not> is_space (hd ?v)" by (rule hd_dropWhile)
  have "rev ?v = takeWhile is_space (rev ?v) @ ?u" by simp
  then have "?v = rev ?u @ rev (takeWhile is_space (rev ?v))"
    by (metis rev_append rev_rev_ident)
  then have "hd ?v = hd (rev ?u)" using u by (metis hd_append2 rev_is_Nil_conv)
  then show ?thesis using nv by (simp add: str_strip_def)
qed

lemma float_le_not_lt: "float_le a b \<Longrightarrow> \<not> float_lt b a"
  by (cases a; cases b) auto

lemma py_float_error: "py_float rt v = Inl e \<Longrightarrow> e = ValueError \<or> e = TypeError"
  by (cases v) (auto split: option.splits)

lemma strptime_Nil [simp]: "strptime_ymd [] = None" "strptime_dmy [] = None"
  by (simp_all add: strptime_ymd_def strptime_dmy_def)

lemma spec_txn_id_Nil [simp]: "\<not> spec_txn_id []"
  by (simp add: spec_txn_id_def)

lemma spec_two_format_date_Nil [simp]: "\<not> spec_two_format_date []"
  by (simp add: spec_two_format_date_def)

section \<open>Trimming, upper case and dates\<close>

lemma str_strip_id:
  assumes "s \<noteq> []" and "\<not> is_space (hd s)" and "\<not> is_space (last s)"
  shows "str_strip s = s"
proof -
  from assms(1,2) have 1: "dropWhile is_space s = s" by (cases s) auto
  from assms(1) have r: "rev s = last s # rev (butlast s)"
    by (metis append_butlast_last_id rev.simps(2) rev_append rev_rev_ident append_Cons append_Nil)
  have 2: "dropWhile is_space (rev s) = rev s"
    unfolding r using assms(3) by simp
  show ?thesis by (simp add: str_strip_def 1 2)
qed

lemma str_strip_idem [simp]: "str_strip (str_strip s) = str_strip s"
proof (cases "str_strip s = []")
  case True
  then show ?thesis by simp
next
  case False
  then show ?thesis by (intro str_strip_id str_strip_hd str_strip_last)
qed

text \<open>The upper case of a character is not empty, and it is white space when the character
  is.\<close>

lemma upper_char_not_Nil [simp]: "upper_char c \<noteq> []"
  by (simp add: upper_char_def split: option.splits)

lemma is_space_upper_char: "u \<in> set (upper_char c) \<Longrightarrow> is_space u = is_space c"
  by (auto simp: upper_char_def lower_letters_def upper_letters_def is_space_def
      split: if_splits)

lemma upper_char_idem: "u \<in> set (upper_char c) \<Longrightarrow> upper_char u = [u]"
  by (auto simp: upper_char_def lower_letters_def upper_letters_def split: if_splits)

lemma str_upper_append [simp]: "str_upper (s @ t) = str_upper s @ str_upper t"
  by (simp add: str_upper_def)

lemma str_upper_fixed: "(\<And>u. u \<in> set s \<Longrightarrow> upper_char u = [u]) \<Longrightarrow> str_upper s = s"
  by (induction s) (simp_all add: str_upper_def)

lemma str_upper_idem [simp]: "str_upper (str_upper s) = str_upper s"
proof (induction s)
  case Nil
  then show ?case by (simp add: str_upper_def)
next
  case (Cons c s)
  have "str_upper (c # s) = upper_char c @ str_upper s" by (simp add: str_upper_def)
  moreover have "str_upper (upper_char c) = upper_char c"
    by (rule str_upper_fixed) (rule upper_char_idem)
  ultimately show ?case using Cons.IH by simp
qed

lemma dropWhile_concat_map:
  assumes ne: "\<And>c. f c \<noteq> []" and sp: "\<And>c u. u \<in> set (f c) \<Longrightarrow> P u = P c"
  shows "dropWhile P (concat (map f s)) = concat (map f (dropWhile P s))"
proof (induction s)
  case Nil
  then show ?case by simp
next
  case (Cons c s)
  show ?case
  proof (cases "P c")
    case True
    with sp have "\<And>u. u \<in> set (f c) \<Longrightarrow> P u" by blast
    then have "dropWhile P (f c @ concat (map f s)) = dropWhile P (concat (map f s))"
      by (rule dropWhile_append2)
    with True Cons.IH show ?thesis by simp
  next
    case False
    from ne [of c] obtain u r where fc: "f c = u # r" by (cases "f c") auto
    with sp [of u c] False have "\<not> P u" by simp
    with fc have "dropWhile P (f c @ concat (map f s)) = f c @ concat (map f s)" by simp
    with False show ?thesis by simp
  qed
qed

lemma str_strip_upper: "str_strip (str_upper s) = str_upper (str_strip s)"
proof -
  have r: "rev (concat (map upper_char t)) = concat (map (rev \<circ> upper_char) (rev t))" for t
    by (simp add: rev_concat rev_map)
  have d: "dropWhile is_space (concat (map (rev \<circ> upper_char) t)) =
             concat (map (rev \<circ> upper_char) (dropWhile is_space t))" for t
    by (rule dropWhile_concat_map) (simp_all add: is_space_upper_char)
  have "str_strip (str_upper s) =
          rev (dropWhile is_space (rev (concat (map upper_char (dropWhile is_space s)))))"
    unfolding str_strip_def str_upper_def
    by (simp add: dropWhile_concat_map [of upper_char is_space] is_space_upper_char)
  also have "\<dots> = rev (concat (map (rev \<circ> upper_char)
                       (dropWhile is_space (rev (dropWhile is_space s)))))"
    by (simp only: r d)
  also have "\<dots> = concat (map upper_char (rev (dropWhile is_space (rev (dropWhile is_space s)))))"
    by (simp add: rev_concat rev_map comp_def)
  finally show ?thesis by (simp add: str_strip_def str_upper_def)
qed

lemma str_upper_Nil_iff [simp]: "str_upper s = [] \<longleftrightarrow> s = []"
  by (cases s) (simp_all add: str_upper_def)

text \<open>Parsing the printed form of a date gives the date back.\<close>

lemma digit_char_props:
  assumes "i < 10"
  shows "is_digit (digit_char i) \<and> digit_val (digit_char i) = i \<and> \<not> is_space (digit_char i)"
proof -
  from assms have "i \<in> {9, 8, 7, 6, 5, 4, 3, 2, 1, 0}" by (simp; arith)
  then show ?thesis
    by (elim insertE emptyE) (simp_all add: digit_char_def is_digit_def digit_val_def is_space_def)
qed

lemma pad4_value:
  assumes y: "y \<le> (9999::nat)"
  shows "1000 * (y div 1000 mod 10) + 100 * (y div 100 mod 10) + 10 * (y div 10 mod 10) + y mod 10 = y"
proof -
  define a where "a = y div 10"
  define b where "b = a div 10"
  define c where "c = b div 10"
  have h: "y div 100 = b" "y div 1000 = c"
    by (simp_all add: a_def b_def c_def div_mult2_eq)
  have 1: "y = 10 * a + y mod 10" by (simp add: a_def)
  have 2: "a = 10 * b + a mod 10" by (simp add: b_def)
  have 3: "b = 10 * c + b mod 10" by (simp add: c_def)
  have "c < 10" using y h(2) by (simp add: less_mult_imp_div_less)
  then have 4: "c mod 10 = c" by simp
  have "1000 * (c mod 10) + 100 * (b mod 10) + 10 * (a mod 10) + y mod 10 = y"
    using 1 2 3 4 by linarith
  then show ?thesis by (simp add: h a_def)
qed

lemma match_Y_pad4: "y \<le> 9999 \<Longrightarrow> match_Y (pad4 y @ r) = Some (y, r)"
proof -
  assume y: "y \<le> 9999"
  have d: "y div 1000 mod 10 < 10" "y div 100 mod 10 < 10" "y div 10 mod 10 < 10" "y mod 10 < 10"
    by simp_all
  have m: "y div 1000 mod 10 = y div 1000" using y by simp
  note v = pad4_value [OF y, unfolded m]
  show ?thesis
    using d [unfolded m, THEN digit_char_props] v by (simp add: pad4_def m)
qed

lemma match_m_pad2: "1 \<le> m \<Longrightarrow> m \<le> 12 \<Longrightarrow> match_m (pad2 m @ r) = Some (m, r)"
proof -
  assume "1 \<le> m" "m \<le> 12"
  then have "m = 1 \<or> m = 2 \<or> m = 3 \<or> m = 4 \<or> m = 5 \<or> m = 6 \<or> m = 7 \<or> m = 8 \<or> m = 9 \<or>
    m = 10 \<or> m = 11 \<or> m = 12" by arith
  then show ?thesis
    by (elim disjE) (simp_all add: pad2_def digit_char_def digit_val_def)
qed

lemma match_d_pad2: "1 \<le> d \<Longrightarrow> d \<le> 31 \<Longrightarrow> match_d (pad2 d @ r) = Some (d, r)"
proof -
  assume "1 \<le> d" "d \<le> 31"
  then have "d = 1 \<or> d = 2 \<or> d = 3 \<or> d = 4 \<or> d = 5 \<or> d = 6 \<or> d = 7 \<or> d = 8
    \<or> d = 9 \<or> d = 10 \<or> d = 11 \<or> d = 12 \<or> d = 13 \<or> d = 14 \<or> d = 15
    \<or> d = 16 \<or> d = 17 \<or> d = 18 \<or> d = 19 \<or> d = 20 \<or> d = 21 \<or> d = 22
    \<or> d = 23 \<or> d = 24 \<or> d = 25 \<or> d = 26 \<or> d = 27 \<or> d = 28 \<or> d = 29
    \<or> d = 30 \<or> d = 31" by arith
  then show ?thesis
    by (elim disjE) (simp_all add: pad2_def digit_char_def digit_val_def is_digit_def)
qed

lemma days_in_month_le: "days_in_month y m \<le> 31"
  by (simp add: days_in_month_def)

lemma make_date_Some:
  "make_date y m d = Some dt \<Longrightarrow>
     dt = \<lparr>year = y, month = m, day = d\<rparr> \<and> 1 \<le> y \<and> y \<le> 9999 \<and> 1 \<le> m \<and> m \<le> 12 \<and>
     1 \<le> d \<and> d \<le> 31 \<and> make_date (year dt) (month dt) (day dt) = Some dt"
  using days_in_month_le [of y m] by (auto simp: make_date_def split: if_splits)

lemma strptime_isoformat:
  assumes "make_date y m d = Some dt"
  shows "strptime_ymd (isoformat dt) = Some dt"
proof -
  from make_date_Some [OF assms]
  have dt: "dt = \<lparr>year = y, month = m, day = d\<rparr>" and b: "y \<le> 9999" "1 \<le> m" "m \<le> 12" "1 \<le> d" "d \<le> 31"
    by simp_all
  have "strptime_ymd (pad4 y @ CHR ''-'' # pad2 m @ CHR ''-'' # pad2 d @ []) = make_date y m d"
    unfolding strptime_ymd_def
    by (simp add: match_Y_pad4 [OF b(1)] match_m_pad2 [OF b(2,3)] match_d_pad2 [OF b(4,5)]
        del: append_Nil2)
  with assms dt show ?thesis by (simp add: isoformat_def)
qed

lemma strftime_pads:
  assumes "pads_year rt" and "make_date y m d = Some dt"
  shows "strftime_ymd rt dt = isoformat dt"
proof -
  from make_date_Some [OF assms(2)] have "1 \<le> year dt" "year dt \<le> 9999" by auto
  with assms(1) have "strftime_Y rt (year dt) = pad4 (year dt)" by (simp add: pads_year_def)
  then show ?thesis by (simp add: strftime_ymd_def isoformat_def)
qed

lemma strptime_ymd_valid: "strptime_ymd s = Some dt \<Longrightarrow> \<exists>y m d. make_date y m d = Some dt"
  by (auto simp: strptime_ymd_def split: option.splits if_splits prod.splits)

lemma strptime_dmy_valid: "strptime_dmy s = Some dt \<Longrightarrow> \<exists>y m d. make_date y m d = Some dt"
  by (auto simp: strptime_dmy_def split: option.splits if_splits prod.splits)

lemma str_strip_isoformat [simp]: "str_strip (isoformat dt) = isoformat dt"
proof -
  have "\<not> is_space (digit_char (year dt div 1000 mod 10))" "\<not> is_space (digit_char (day dt mod 10))"
    using digit_char_props [of "year dt div 1000 mod 10"] digit_char_props [of "day dt mod 10"]
    by simp_all
  then show ?thesis
    by (intro str_strip_id) (simp_all add: isoformat_def pad4_def pad2_def)
qed

section \<open>The validator meets its rules\<close>

text \<open>On a trimmed string the pattern of the code and the words of the specification agree:
  a trimmed string does not end with a line feed.\<close>

lemma spec_txn_id_last_digit: "spec_txn_id t \<Longrightarrow> t \<noteq> [] \<and> is_digit (last t)"
proof -
  assume a: "spec_txn_id t"
  then have l: "length (drop 3 t) = 7" and d: "list_all is_digit (drop 3 t)"
    by (simp_all add: spec_txn_id_def)
  from l have ne: "drop 3 t \<noteq> []" by auto
  then have "last (drop 3 t) = last t" by simp
  moreover have "is_digit (last (drop 3 t))"
    using d last_in_set [OF ne] by (simp only: list_all_iff)
  ultimately show ?thesis using ne by auto
qed

lemma spec_txn_id_match: "spec_txn_id t \<Longrightarrow> match_transaction_id_pattern t"
proof -
  assume a: "spec_txn_id t"
  have "\<not> is_digit (CHR 0x0A)" by (simp add: is_digit_def)
  with spec_txn_id_last_digit [OF a] have "last t \<noteq> CHR 0x0A" by metis
  moreover from a have "length t = 10" by (auto simp: spec_txn_id_def)
  ultimately show ?thesis
    using a by (simp add: match_transaction_id_pattern_def spec_txn_id_def)
qed

lemma match_strip_spec_txn_id:
  "match_transaction_id_pattern (str_strip s) \<Longrightarrow> spec_txn_id (str_strip s)"
proof -
  assume m: "match_transaction_id_pattern (str_strip s)"
  then have ne: "str_strip s \<noteq> []"
    by (auto simp: match_transaction_id_pattern_def Let_def split: if_splits)
  have "is_space (CHR 0x0A)" by (simp add: is_space_def)
  with str_strip_last [OF ne] have "last (str_strip s) \<noteq> CHR 0x0A" by metis
  with m ne show ?thesis
    by (simp add: match_transaction_id_pattern_def spec_txn_id_def Let_def)
qed

lemma validate_transaction_id_eq:
  "validate_transaction_id (dict_get tx ''transaction_id'' (PStr [])) =
     (if id_violation tx then Inl InvalidTransactionIDError else Inr True)"
proof (cases "map_of tx ''transaction_id''")
  case None
  then show ?thesis by (simp add: dict_get_def id_violation_def)
next
  case (Some v)
  show ?thesis
  proof (cases v)
    case (PStr s)
    have "match_transaction_id_pattern (str_strip s) \<longleftrightarrow> spec_txn_id (str_strip s)"
      using spec_txn_id_match match_strip_spec_txn_id by blast
    with Some PStr show ?thesis by (simp add: dict_get_def id_violation_def)
  qed (simp_all add: Some dict_get_def id_violation_def)
qed

lemma validate_date_eq:
  "validate_date (dict_get tx ''transaction_date'' (PStr [])) =
     (if date_violation tx then Inl InvalidDateFormatError else Inr True)"
proof (cases "map_of tx ''transaction_date''")
  case None
  then show ?thesis by (simp add: dict_get_def date_violation_def)
next
  case (Some v)
  show ?thesis
  proof (cases v)
    case (PStr s)
    with Some show ?thesis
      by (auto simp: dict_get_def date_violation_def spec_two_format_date_def
          split: option.splits)
  qed (simp_all add: Some dict_get_def date_violation_def)
qed

lemma validate_amount_eq:
  "validate_amount rt (dict_get tx ''amount'' PNone) =
     (if amount_rejected rt tx then Inl InvalidAmountError else Inr True)"
proof (cases "map_of tx ''amount''")
  case None
  then show ?thesis by (simp add: dict_get_def amount_rejected_def validate_amount_def)
next
  case (Some a)
  show ?thesis
  proof (cases "py_float rt a")
    case (Inl e)
    with py_float_error [OF Inl] Some show ?thesis
      by (auto simp: dict_get_def amount_rejected_def validate_amount_def)
  next
    case (Inr x)
    with Some show ?thesis
      by (simp add: dict_get_def amount_rejected_def validate_amount_def)
  qed
qed

lemma validate_currency_eq:
  "validate_currency (dict_get tx ''currency'' (PStr [])) =
     (if currency_violation tx then Inl InvalidCurrencyError else Inr True)"
proof (cases "map_of tx ''currency''")
  case None
  then show ?thesis by (simp add: dict_get_def currency_violation_def)
next
  case (Some v)
  show ?thesis
  proof (cases v)
    case (PStr s)
    with Some show ?thesis
      by (simp add: dict_get_def currency_violation_def VALID_CURRENCIES_def str_upper_def)
  qed (simp_all add: Some dict_get_def currency_violation_def)
qed

text \<open>The second conversion of the amount, for the anomaly flag, succeeds where the first
  one did.\<close>

lemma check_amount_anomaly_after_validate:
  "\<not> amount_rejected rt tx \<Longrightarrow>
     \<exists>a x. map_of tx ''amount'' = Some a \<and> py_float rt a = Inr x \<and>
       check_amount_anomaly rt (dict_get tx ''amount'' (PFloat (Fin 0))) =
         Inr (float_gt x (Fin 10000000))"
  by (auto simp: amount_rejected_def check_amount_anomaly_def dict_get_def
      ANOMALY_THRESHOLD_def split: option.splits sum.splits)

lemma validate_transaction_eq:
  "validate_transaction rt tx =
     (if id_violation tx then (tx, Inl InvalidTransactionIDError)
      else if date_violation tx then (tx, Inl InvalidDateFormatError)
      else if amount_rejected rt tx then (tx, Inl InvalidAmountError)
      else if currency_violation tx then (tx, Inl InvalidCurrencyError)
      else case check_amount_anomaly rt (dict_get tx ''amount'' (PFloat (Fin 0))) of
             Inl e \<Rightarrow> (tx, Inl e)
           | Inr anomaly \<Rightarrow>
               (AList.update ''amount_anomaly'' (PBool anomaly) tx,
                Inr (AList.update ''amount_anomaly'' (PBool anomaly) tx)))"
  unfolding validate_transaction_def validate_transaction_id_eq validate_date_eq
    validate_amount_eq validate_currency_eq
  by (simp add: Let_def split: sum.splits)

text \<open>
  Claim C1: a record whose identifier, trimmed, is \<^verbatim>\<open>TXN\<close> and seven digits, whose date
  parses under one of the two formats, whose amount is not empty, reads as a number \<open>x\<close> and
  is at least 0, and whose currency, trimmed and in upper case, is one of the three codes,
  is returned by \<^verbatim>\<open>validate_transaction\<close> without an exception, with \<^verbatim>\<open>amount_anomaly\<close>
  set to the truth value of \<open>x > 10,000,000\<close>; nothing else in the record changes.
\<close>

theorem validate_transaction_valid:
  assumes "map_of tx ''transaction_id'' = Some (PStr i)" and "spec_txn_id (str_strip i)"
    and "map_of tx ''transaction_date'' = Some (PStr d)"
    and "spec_two_format_date (str_strip d)"
    and "map_of tx ''amount'' = Some a" and "a \<noteq> PNone" and "\<not> is_blank_str a"
    and "py_float rt a = Inr x" and "float_le (Fin 0) x"
    and "map_of tx ''currency'' = Some (PStr c)"
    and "str_upper (str_strip c) \<in> {''IDR'', ''USD'', ''SGD''}"
  shows "validate_transaction rt tx =
           (AList.update ''amount_anomaly'' (PBool (float_gt x (Fin 10000000))) tx,
            Inr (AList.update ''amount_anomaly'' (PBool (float_gt x (Fin 10000000))) tx))"
proof -
  have 1: "\<not> id_violation tx" using assms(1,2) by (simp add: id_violation_def)
  have 2: "\<not> date_violation tx" using assms(3,4) by (simp add: date_violation_def)
  have 3: "\<not> amount_rejected rt tx"
    using assms(5-9) float_le_not_lt [of "Fin 0" x] by (simp add: amount_rejected_def)
  have 4: "\<not> currency_violation tx" using assms(10,11) by (simp add: currency_violation_def)
  have 5: "check_amount_anomaly rt (dict_get tx ''amount'' (PFloat (Fin 0))) =
             Inr (float_gt x (Fin 10000000))"
    using assms(5,8) by (simp add: check_amount_anomaly_def dict_get_def ANOMALY_THRESHOLD_def)
  show ?thesis using 1 2 3 4 5 by (simp add: validate_transaction_eq)
qed

theorem validate_transaction_valid_witness:
  "spec_txn_id (str_strip ''TXN0000001'') \<and> spec_two_format_date (str_strip ''21/02/2024'') \<and>
   py_float example_runtime (PStr ''5000.50'') = Inr (Fin 5000.5) \<and>
   validate_transaction example_runtime example_txn =
     (AList.update ''amount_anomaly'' (PBool False) example_txn,
      Inr (AList.update ''amount_anomaly'' (PBool False) example_txn)) \<and>
   py_float example_runtime (PStr ''15000000.00'') = Inr (Fin 15000000) \<and>
   validate_transaction example_runtime large_amount_txn =
     (large_amount_txn @ [(''amount_anomaly'', PBool True)],
      Inr (large_amount_txn @ [(''amount_anomaly'', PBool True)]))"
proof -
  have 1: "map_of example_txn ''transaction_id'' = Some (PStr ''TXN0000001'')"
    "map_of large_amount_txn ''transaction_id'' = Some (PStr ''TXN0000001'')"
    by (simp_all add: example_txn_def large_amount_txn_def)
  have 2: "spec_txn_id (str_strip ''TXN0000001'')"
    by (simp add: spec_txn_id_def eval_defs)
  have 3: "map_of example_txn ''transaction_date'' = Some (PStr ''21/02/2024'')"
    "map_of large_amount_txn ''transaction_date'' = Some (PStr ''2024-02-21'')"
    by (simp_all add: example_txn_def large_amount_txn_def)
  have 4: "spec_two_format_date (str_strip ''21/02/2024'')"
    "spec_two_format_date (str_strip ''2024-02-21'')"
    by (simp_all add: spec_two_format_date_def eval_defs)
  have 5: "map_of example_txn ''amount'' = Some (PStr ''5000.50'')"
    "map_of large_amount_txn ''amount'' = Some (PStr ''15000000.00'')"
    by (simp_all add: example_txn_def large_amount_txn_def)
  have 6: "PStr ''5000.50'' \<noteq> PNone" "PStr ''15000000.00'' \<noteq> PNone" by simp_all
  have 7: "\<not> is_blank_str (PStr ''5000.50'')" "\<not> is_blank_str (PStr ''15000000.00'')"
    by (simp_all add: eval_defs)
  have 8: "py_float example_runtime (PStr ''5000.50'') = Inr (Fin 5000.5)"
    "py_float example_runtime (PStr ''15000000.00'') = Inr (Fin 15000000)"
    by (simp_all add: eval_defs)
  have 9: "float_le (Fin 0) (Fin 5000.5)" "float_le (Fin 0) (Fin 15000000)" by simp_all
  have 10: "map_of example_txn ''currency'' = Some (PStr ''idr'')"
    "map_of large_amount_txn ''currency'' = Some (PStr ''IDR'')"
    by (simp_all add: example_txn_def large_amount_txn_def)
  have 11: "str_upper (str_strip ''idr'') \<in> {''IDR'', ''USD'', ''SGD''}"
    "str_upper (str_strip ''IDR'') \<in> {''IDR'', ''USD'', ''SGD''}"
    by (simp_all add: eval_defs)
  have 12: "AList.update ''amount_anomaly'' (PBool True) large_amount_txn =
              large_amount_txn @ [(''amount_anomaly'', PBool True)]"
    by (simp add: large_amount_txn_def)
  from validate_transaction_valid [OF 1(1) 2 3(1) 4(1) 5(1) 6(1) 7(1) 8(1) 9(1) 10(1) 11(1)]
    validate_transaction_valid [OF 1(2) 2 3(2) 4(2) 5(2) 6(2) 7(2) 8(2) 9(2) 10(2) 11(2)]
    2 4 8 12
  show ?thesis by (simp add: float_gt_def)
qed

text \<open>What the code rejects is a violation; an amount that violates its rule and is not
  rejected is NaN.\<close>

lemma amount_violation_iff:
  "amount_violation rt tx \<longleftrightarrow>
     amount_rejected rt tx \<or> (\<exists>a. map_of tx ''amount'' = Some a \<and> py_float rt a = Inr NaN)"
proof (cases "map_of tx ''amount''")
  case None
  then show ?thesis by (simp add: amount_violation_def amount_rejected_def)
next
  case (Some a)
  show ?thesis
  proof (cases "py_float rt a")
    case (Inl e)
    with Some show ?thesis by (simp add: amount_violation_def amount_rejected_def)
  next
    case (Inr x)
    with Some show ?thesis
      by (cases x) (auto simp: amount_violation_def amount_rejected_def)
  qed
qed

text \<open>
  The validator raises the typed error of the first field, in the order identifier, date,
  amount, currency, whose check rejects the record; the check of the amount rejects an amount
  that is empty, cannot be read as a number, or is below 0.
\<close>

lemma validate_transaction_first_rejection:
  "(id_violation tx \<longrightarrow>
      snd (validate_transaction rt tx) = Inl InvalidTransactionIDError) \<and>
   (\<not> id_violation tx \<and> date_violation tx \<longrightarrow>
      snd (validate_transaction rt tx) = Inl InvalidDateFormatError) \<and>
   (\<not> id_violation tx \<and> \<not> date_violation tx \<and> amount_rejected rt tx \<longrightarrow>
      snd (validate_transaction rt tx) = Inl InvalidAmountError) \<and>
   (\<not> id_violation tx \<and> \<not> date_violation tx \<and> \<not> amount_rejected rt tx \<and>
    currency_violation tx \<longrightarrow>
      snd (validate_transaction rt tx) = Inl InvalidCurrencyError)"
  by (simp add: validate_transaction_eq)

lemma validate_transaction_first_rejection_examples:
  "id_violation invalid_id_txn \<and>
   snd (validate_transaction example_runtime invalid_id_txn) = Inl InvalidTransactionIDError \<and>
   \<not> id_violation invalid_date_amount_txn \<and> date_violation invalid_date_amount_txn \<and>
   amount_rejected example_runtime invalid_date_amount_txn \<and>
   currency_violation invalid_date_amount_txn \<and>
   snd (validate_transaction example_runtime invalid_date_amount_txn) =
     Inl InvalidDateFormatError \<and>
   \<not> id_violation invalid_currency_txn \<and> \<not> date_violation invalid_currency_txn \<and>
   \<not> amount_rejected example_runtime invalid_currency_txn \<and>
   currency_violation invalid_currency_txn \<and>
   snd (validate_transaction example_runtime invalid_currency_txn) = Inl InvalidCurrencyError"
proof -
  have 1: "id_violation invalid_id_txn"
    by (simp add: id_violation_def invalid_id_txn_def spec_txn_id_def eval_defs)
  have 2: "\<not> id_violation invalid_currency_txn" "\<not> id_violation invalid_date_amount_txn"
    by (simp_all add: id_violation_def invalid_currency_txn_def invalid_date_amount_txn_def
        spec_txn_id_def eval_defs)
  have 3: "\<not> date_violation invalid_currency_txn"
    by (simp add: date_violation_def invalid_currency_txn_def spec_two_format_date_def
        eval_defs)
  have 4: "\<not> amount_rejected example_runtime invalid_currency_txn"
    by (simp add: amount_rejected_def invalid_currency_txn_def eval_defs)
  have 5: "currency_violation invalid_currency_txn"
    "currency_violation invalid_date_amount_txn"
    by (simp_all add: currency_violation_def invalid_currency_txn_def
        invalid_date_amount_txn_def eval_defs)
  have 6: "date_violation invalid_date_amount_txn"
    by (simp add: date_violation_def invalid_date_amount_txn_def spec_two_format_date_def
        eval_defs)
  have 7: "amount_rejected example_runtime invalid_date_amount_txn"
    by (simp add: amount_rejected_def invalid_date_amount_txn_def eval_defs)
  from 1 2 3 4 5 6 7
    validate_transaction_first_rejection [of invalid_id_txn example_runtime]
    validate_transaction_first_rejection [of invalid_date_amount_txn example_runtime]
    validate_transaction_first_rejection [of invalid_currency_txn example_runtime]
  show ?thesis by blast
qed

text \<open>
  Claim C2 says that a record with a violation of a mandatory field raises the typed error
  of the first violated field, in the order identifier, date, amount, currency. The rule of
  the amount is that it is a number and at least 0, and the guard of the code is
  \<^verbatim>\<open>amount_float < 0\<close>: the amount \<^verbatim>\<open>nan\<close> reads as a float that is neither at least 0
  nor below 0. So the record with identifier, date and currency in order and the amount
  \<^verbatim>\<open>nan\<close> violates the rule of the amount and is returned, with \<^verbatim>\<open>amount_anomaly\<close>
  false, where \<^verbatim>\<open>InvalidAmountError\<close> is due; and the same record with the currency
  \<^verbatim>\<open>EUR\<close>, whose first violated field is the amount, raises \<^verbatim>\<open>InvalidCurrencyError\<close>.
\<close>

theorem validate_transaction_nan_amount:
  "\<not> id_violation nan_amount_txn \<and> \<not> date_violation nan_amount_txn \<and>
   amount_violation example_runtime nan_amount_txn \<and>
   validate_transaction example_runtime nan_amount_txn =
     (nan_amount_txn @ [(''amount_anomaly'', PBool False)],
      Inr (nan_amount_txn @ [(''amount_anomaly'', PBool False)])) \<and>
   \<not> id_violation nan_amount_eur_txn \<and> \<not> date_violation nan_amount_eur_txn \<and>
   amount_violation example_runtime nan_amount_eur_txn \<and>
   validate_transaction example_runtime nan_amount_eur_txn =
     (nan_amount_eur_txn, Inl InvalidCurrencyError)"
proof -
  have 1: "\<not> id_violation nan_amount_txn" "\<not> id_violation nan_amount_eur_txn"
    by (simp_all add: id_violation_def nan_amount_txn_def nan_amount_eur_txn_def
        spec_txn_id_def eval_defs)
  have 2: "\<not> date_violation nan_amount_txn" "\<not> date_violation nan_amount_eur_txn"
    by (simp_all add: date_violation_def nan_amount_txn_def nan_amount_eur_txn_def
        spec_two_format_date_def eval_defs)
  have 3: "float_of_str example_runtime ''nan'' = Some NaN"
    by (simp add: eval_defs)
  have b: "str_strip ''nan'' \<noteq> []" by (simp add: eval_defs)
  have 4: "amount_violation example_runtime nan_amount_txn"
    "amount_violation example_runtime nan_amount_eur_txn"
    by (simp_all add: amount_violation_def nan_amount_txn_def nan_amount_eur_txn_def 3 b)
  have 5: "\<not> amount_rejected example_runtime nan_amount_txn"
    "\<not> amount_rejected example_runtime nan_amount_eur_txn"
    by (simp_all add: amount_rejected_def nan_amount_txn_def nan_amount_eur_txn_def 3 b)
  have 6: "\<not> currency_violation nan_amount_txn" "currency_violation nan_amount_eur_txn"
    by (simp_all add: currency_violation_def nan_amount_txn_def nan_amount_eur_txn_def
        eval_defs)
  have 7: "check_amount_anomaly example_runtime
             (dict_get nan_amount_txn ''amount'' (PFloat (Fin 0))) = Inr False"
    by (simp add: check_amount_anomaly_def dict_get_def nan_amount_txn_def 3 float_gt_def
        ANOMALY_THRESHOLD_def)
  have 8: "AList.update ''amount_anomaly'' (PBool False) nan_amount_txn =
             nan_amount_txn @ [(''amount_anomaly'', PBool False)]"
    by (simp add: nan_amount_txn_def)
  from 1 2 4 5 6 7 8 show ?thesis by (simp add: validate_transaction_eq)
qed

text \<open>A record without a violation is returned.\<close>

lemma validate_transaction_no_violation:
  "\<not> id_violation tx \<Longrightarrow> \<not> date_violation tx \<Longrightarrow> \<not> amount_rejected rt tx \<Longrightarrow>
   \<not> currency_violation tx \<Longrightarrow> \<exists>tx'. validate_transaction rt tx = (tx', Inr tx')"
  using check_amount_anomaly_after_validate [of rt tx]
  by (auto simp: validate_transaction_eq)

text \<open>
  Claim C3: when \<^verbatim>\<open>validate_transaction\<close> raises, the dictionary of the caller is the one
  that was passed in: no field has changed, and a record that had no \<^verbatim>\<open>amount_anomaly\<close>
  has none afterwards. The exception is one of the four typed errors.
\<close>

theorem validate_transaction_error_unchanged:
  "validate_transaction rt tx = (tx', Inl e) \<Longrightarrow>
     tx' = tx \<and>
     (map_of tx ''amount_anomaly'' = None \<longrightarrow> map_of tx' ''amount_anomaly'' = None) \<and>
     e \<in> {InvalidTransactionIDError, InvalidDateFormatError, InvalidAmountError,
            InvalidCurrencyError}"
  using check_amount_anomaly_after_validate [of rt tx]
  by (auto simp: validate_transaction_eq split: if_splits sum.splits)

theorem validate_transaction_error_unchanged_witness:
  "validate_transaction example_runtime invalid_id_txn =
     (invalid_id_txn, Inl InvalidTransactionIDError) \<and>
   map_of invalid_id_txn ''amount_anomaly'' = None"
proof -
  have 1: "validate_transaction example_runtime invalid_id_txn =
             (invalid_id_txn, Inl InvalidTransactionIDError)"
    by (simp add: validate_transaction_def dict_get_def invalid_id_txn_def
        match_transaction_id_pattern_def eval_defs)
  have 2: "map_of invalid_id_txn ''amount_anomaly'' = None"
    by (simp add: invalid_id_txn_def)
  from validate_transaction_error_unchanged [OF 1] 1 2 show ?thesis by simp
qed

text \<open>
  Claim C9: on a record whose mandatory fields validate, \<^verbatim>\<open>validate_transaction\<close> does not
  raise, whatever \<^verbatim>\<open>direction\<close> and \<^verbatim>\<open>account_type\<close> hold (in particular when they are
  outside their enumerations), and the returned record has both values as they were.
\<close>

theorem validate_transaction_optional_fields:
  assumes "\<not> id_violation tx" and "\<not> date_violation tx" and "\<not> amount_rejected rt tx"
    and "\<not> currency_violation tx"
  shows "\<exists>tx'. validate_transaction rt tx = (tx', Inr tx') \<and>
           map_of tx' ''direction'' = map_of tx ''direction'' \<and>
           map_of tx' ''account_type'' = map_of tx ''account_type''"
  using assms check_amount_anomaly_after_validate [of rt tx]
  by (auto simp: validate_transaction_eq update_conv')

theorem validate_transaction_optional_fields_witness:
  "\<not> validate_direction (PStr ''SIDEWAYS'') \<and> \<not> validate_account_type (PStr ''PIGGY'') \<and>
   (\<exists>tx'. validate_transaction example_runtime example_txn = (tx', Inr tx') \<and>
      map_of tx' ''direction'' = Some (PStr ''SIDEWAYS'') \<and>
      map_of tx' ''account_type'' = Some (PStr ''PIGGY''))"
proof -
  have 1: "\<not> id_violation example_txn"
    by (simp add: id_violation_def example_txn_def spec_txn_id_def eval_defs)
  have 2: "\<not> date_violation example_txn"
    by (simp add: date_violation_def example_txn_def spec_two_format_date_def eval_defs)
  have 3: "\<not> amount_rejected example_runtime example_txn"
    by (simp add: amount_rejected_def example_txn_def eval_defs)
  have 4: "\<not> currency_violation example_txn"
    by (simp add: currency_violation_def example_txn_def eval_defs)
  have 5: "\<not> validate_direction (PStr ''SIDEWAYS'')"
    by (simp add: VALID_DIRECTIONS_def eval_defs)
  have 6: "\<not> validate_account_type (PStr ''PIGGY'')"
    by (simp add: VALID_ACCOUNT_TYPES_def eval_defs)
  have 7: "map_of example_txn ''direction'' = Some (PStr ''SIDEWAYS'')"
    "map_of example_txn ''account_type'' = Some (PStr ''PIGGY'')"
    by (simp_all add: example_txn_def)
  from validate_transaction_optional_fields [OF 1 2 3 4] 5 6 7 show ?thesis by simp
qed

section \<open>The derived features\<close>

text \<open>
  Claim C6: \<^verbatim>\<open>is_large_transaction(a)\<close> is true exactly when \<open>a\<close> is not null and greater
  than 5,000,000; 5,000,000 itself and null give false.
\<close>

theorem is_large_transaction_iff:
  "(is_large_transaction a \<longleftrightarrow> (\<exists>x. a = Some x \<and> float_gt x (Fin 5000000))) \<and>
   (is_large_transaction (Some (Fin r)) \<longleftrightarrow> 5000000 < r) \<and>
   \<not> is_large_transaction (Some (Fin 5000000)) \<and>
   \<not> is_large_transaction None"
  by (cases a) (simp_all add: float_gt_def)

text \<open>
  What \<^verbatim>\<open>is_crossborder_transaction\<close> computes for a currency \<open>c\<close> that is null or a
  string: true exactly when \<open>c\<close> is a string, is not empty, and differs from \<^verbatim>\<open>IDR\<close>
  after trimming and conversion to upper case.
\<close>

lemma is_crossborder_transaction_iff:
  "is_crossborder_transaction rt (of_opt_str c) \<longleftrightarrow>
     (\<exists>s. c = Some s \<and> s \<noteq> [] \<and> str_upper (str_strip s) \<noteq> ''IDR'')"
  by (cases c) (simp_all add: is_crossborder_transaction_def)

text \<open>
  Claim C7 says that \<^verbatim>\<open>is_crossborder_transaction(c)\<close> is true exactly when \<open>c\<close>, trimmed
  and in upper case, is not null, not empty and not \<^verbatim>\<open>IDR\<close>, so that a currency of white
  space only gives false. The guard \<^verbatim>\<open>if not currency\<close> of the code tests for the empty
  string before the function trims: for the currency of three blanks the code compares the
  empty string with \<^verbatim>\<open>IDR\<close> and returns true, where the claim gives false; and
  \<^verbatim>\<open>transform_transaction\<close> sets \<^verbatim>\<open>is_crossborder\<close> to true on a record with this
  currency.
\<close>

theorem is_crossborder_whitespace:
  "str_upper (str_strip ''   '') = [] \<and>
   \<not> claimed_is_crossborder (Some ''   '') \<and>
   is_crossborder_transaction example_runtime (of_opt_str (Some ''   '')) \<and>
   transform_transaction example_runtime blank_currency_txn =
     Inr [(''currency'', PStr ''   ''), (''transaction_date'', PNone), (''amount'', PNone),
          (''risk_score'', PNone), (''is_large_transaction'', PBool False),
          (''is_crossborder'', PBool True), (''transaction_day'', PNone),
          (''amount_log'', PNone)]"
proof -
  have 1: "str_upper (str_strip ''   '') = []" by (simp add: eval_defs)
  have 2: "\<not> claimed_is_crossborder (Some ''   '')"
    by (simp add: claimed_is_crossborder_def 1)
  have 3: "is_crossborder_transaction example_runtime (PStr ''   '')"
    by (simp add: is_crossborder_transaction_def 1)
  have 4: "transform_transaction example_runtime blank_currency_txn =
     Inr [(''currency'', PStr ''   ''), (''transaction_date'', PNone), (''amount'', PNone),
          (''risk_score'', PNone), (''is_large_transaction'', PBool False),
          (''is_crossborder'', PBool True), (''transaction_day'', PNone),
          (''amount_log'', PNone)]"
    by (simp add: transform_transaction_def blank_currency_txn_def dict_get_def
        convert_date_to_date_object_def convert_amount_to_float_def
        convert_risk_score_to_float_def 3)
  from 1 2 3 4 show ?thesis by simp
qed

lemma calculate_amount_log_total: "\<exists>res. calculate_amount_log a = Inr res"
proof (cases a)
  case None
  then show ?thesis by simp
next
  case (Some x)
  then show ?thesis by (cases x) auto
qed

text \<open>
  Claim C8: \<^verbatim>\<open>calculate_amount_log(a)\<close> is null when \<open>a\<close> is null or at most 0, is the
  natural logarithm of \<open>a\<close> when \<open>a\<close> is positive, and never raises.
\<close>

theorem calculate_amount_log_spec:
  "calculate_amount_log None = Inr None \<and>
   (r \<le> 0 \<longrightarrow> calculate_amount_log (Some (Fin r)) = Inr None) \<and>
   (0 < r \<longrightarrow> calculate_amount_log (Some (Fin r)) = Inr (Some (Fin (ln r)))) \<and>
   (\<exists>res. calculate_amount_log a = Inr res)"
  using calculate_amount_log_total [of a] by auto

theorem calculate_amount_log_spec_witness:
  "(0::real) < 1 \<and> calculate_amount_log (Some (Fin 1)) = Inr (Some (Fin 0)) \<and>
   (-100::real) \<le> 0 \<and> calculate_amount_log (Some (Fin (-100))) = Inr None \<and>
   calculate_amount_log (Some (Fin 0)) = Inr None"
  using calculate_amount_log_spec [of 1 None] calculate_amount_log_spec [of "-100" None]
    calculate_amount_log_spec [of 0 None]
  by simp

section \<open>The frame of the transformer\<close>

lemma convert_amount_to_float_total: "\<exists>r. convert_amount_to_float rt v = Inr r"
  using py_float_error [of rt v]
  by (cases "py_float rt v") (auto simp: convert_amount_to_float_def)

lemma convert_risk_score_to_float_total: "\<exists>r. convert_risk_score_to_float rt v = Inr r"
  using py_float_error [of rt v]
  by (cases "py_float rt v") (auto simp: convert_risk_score_to_float_def)

text \<open>The steps of \<^verbatim>\<open>transform_transaction\<close> on the record of the test
  \<^verbatim>\<open>test_transform_crossborder_flag_usd\<close>.\<close>

lemma example_date_object:
  "convert_date_to_date_object example_runtime (PStr ''2024-02-21'') =
     Some \<lparr>year = 2024, month = 2, day = 21\<rparr>"
  by (simp add: convert_date_to_date_object_def eval_defs)

lemma example_amount_float:
  "convert_amount_to_float example_runtime (PStr ''5000.50'') = Inr (Some (Fin 5000.5))"
  by (simp add: convert_amount_to_float_def eval_defs)

lemma example_weekday: "weekday \<lparr>year = 2024, month = 2, day = 21\<rparr> = 2"
  by (simp add: weekday_def toordinal_def days_before_year_def days_before_month_def
      days_in_month_def is_leap_def upt_rec)

lemma example_crossborder: "is_crossborder_transaction example_runtime (PStr ''USD'')"
  by (simp add: is_crossborder_transaction_def eval_defs)

lemma example_no_risk_score: "convert_risk_score_to_float example_runtime PNone = Inr None"
  by (simp add: convert_risk_score_to_float_def)

text \<open>
  Claim C10 says that exactly the four derived keys are added and that every field but
  \<^verbatim>\<open>transaction_date\<close>, \<^verbatim>\<open>amount\<close> and \<^verbatim>\<open>risk_score\<close> keeps its value. The code also assigns
  these three keys when the input lacks them (the record of the test
  \<^verbatim>\<open>test_transform_crossborder_flag_usd\<close> gains \<^verbatim>\<open>risk_score\<close>), and it overwrites a field
  of the input that has the name of a derived key.
\<close>

theorem transform_transaction_keys_counterexample:
  "transform_transaction example_runtime usd_txn =
     Inr [(''transaction_date'', PDate \<lparr>year = 2024, month = 2, day = 21\<rparr>),
          (''amount'', PFloat (Fin 5000.5)), (''currency'', PStr ''USD''),
          (''risk_score'', PNone), (''is_large_transaction'', PBool False),
          (''is_crossborder'', PBool True), (''transaction_day'', PStr ''Wednesday''),
          (''amount_log'', PFloat (Fin (ln 5000.5)))] \<and>
   map_of usd_txn ''risk_score'' = None \<and>
   map_of flagged_txn ''is_large_transaction'' = Some (PStr ''yes'') \<and>
   transform_transaction example_runtime flagged_txn =
     Inr [(''transaction_date'', PNone), (''amount'', PNone), (''risk_score'', PNone),
          (''is_large_transaction'', PBool False), (''is_crossborder'', PBool False),
          (''transaction_day'', PNone), (''amount_log'', PNone)]"
proof -
  have "transform_transaction example_runtime usd_txn =
     Inr [(''transaction_date'', PDate \<lparr>year = 2024, month = 2, day = 21\<rparr>),
          (''amount'', PFloat (Fin 5000.5)), (''currency'', PStr ''USD''),
          (''risk_score'', PNone), (''is_large_transaction'', PBool False),
          (''is_crossborder'', PBool True), (''transaction_day'', PStr ''Wednesday''),
          (''amount_log'', PFloat (Fin (ln 5000.5)))]"
    by (simp add: transform_transaction_def usd_txn_def dict_get_def float_gt_def
        example_date_object example_amount_float example_weekday example_crossborder
        example_no_risk_score)
  moreover have "transform_transaction example_runtime flagged_txn =
     Inr [(''transaction_date'', PNone), (''amount'', PNone), (''risk_score'', PNone),
          (''is_large_transaction'', PBool False), (''is_crossborder'', PBool False),
          (''transaction_day'', PNone), (''amount_log'', PNone)]"
    by (simp add: transform_transaction_def flagged_txn_def dict_get_def
        convert_date_to_date_object_def convert_amount_to_float_def
        convert_risk_score_to_float_def is_crossborder_transaction_def)
  ultimately show ?thesis by (simp add: usd_txn_def flagged_txn_def)
qed

lemma dict_get_update:
  "k \<noteq> k' \<Longrightarrow> dict_get (AList.update k v d) k' dflt = dict_get d k' dflt"
  by (simp add: dict_get_def update_conv')

lemma dict_get_absent: "map_of d k = None \<Longrightarrow> dict_get d k dflt = dflt"
  by (simp add: dict_get_def)

lemma convert_date_to_date_object_None [simp]: "convert_date_to_date_object rt PNone = None"
  by (simp add: convert_date_to_date_object_def)

lemma convert_amount_to_float_None [simp]: "convert_amount_to_float rt PNone = Inr None"
  by (simp add: convert_amount_to_float_def)

lemma convert_risk_score_to_float_None [simp]:
  "convert_risk_score_to_float rt PNone = Inr None"
  by (simp add: convert_risk_score_to_float_def)

text \<open>
  Claim C10, amended: for every record whose values are strings, null, booleans, floats or
  dates (the values of the model, which cover every cleaned record),
  \<^verbatim>\<open>transform_transaction\<close> returns a record whose keys are the keys of the input together
  with \<^verbatim>\<open>transaction_date\<close>, \<^verbatim>\<open>amount\<close>, \<^verbatim>\<open>risk_score\<close> and the four derived keys. Every
  field other than these seven has the value it had. \<^verbatim>\<open>transaction_date\<close>, \<^verbatim>\<open>amount\<close> and
  \<^verbatim>\<open>risk_score\<close> hold the converted values of the input, which are null when the input
  lacks the key; the four derived keys hold the large-transaction flag and the logarithm of
  the converted amount, the cross-border flag of the currency of the input, and the weekday
  of the converted date.
\<close>

theorem transform_transaction_frame:
  "\<exists>out amount risk_score amount_log.
     transform_transaction rt tx = Inr out \<and>
     fst ` set out = fst ` set tx \<union> transform_keys \<and>
     (\<forall>k. k \<notin> transform_keys \<longrightarrow> map_of out k = map_of tx k) \<and>
     convert_amount_to_float rt (dict_get tx ''amount'' PNone) = Inr amount \<and>
     convert_risk_score_to_float rt (dict_get tx ''risk_score'' PNone) = Inr risk_score \<and>
     calculate_amount_log amount = Inr amount_log \<and>
     map_of out ''transaction_date'' =
       Some (of_opt_date
         (convert_date_to_date_object rt (dict_get tx ''transaction_date'' PNone))) \<and>
     map_of out ''amount'' = Some (of_opt_float amount) \<and>
     map_of out ''risk_score'' = Some (of_opt_float risk_score) \<and>
     map_of out ''is_large_transaction'' = Some (PBool (is_large_transaction amount)) \<and>
     map_of out ''is_crossborder'' =
       Some (PBool (is_crossborder_transaction rt (dict_get tx ''currency'' (PStr [])))) \<and>
     map_of out ''transaction_day'' =
       Some (of_opt_str (get_transaction_day
         (convert_date_to_date_object rt (dict_get tx ''transaction_date'' PNone)))) \<and>
     map_of out ''amount_log'' = Some (of_opt_float amount_log) \<and>
     (map_of tx ''transaction_date'' = None \<longrightarrow> map_of out ''transaction_date'' = Some PNone) \<and>
     (map_of tx ''amount'' = None \<longrightarrow> map_of out ''amount'' = Some PNone) \<and>
     (map_of tx ''risk_score'' = None \<longrightarrow> map_of out ''risk_score'' = Some PNone)"
proof -
  define date_obj where
    "date_obj = convert_date_to_date_object rt (dict_get tx ''transaction_date'' PNone)"
  define t1 where "t1 = AList.update ''transaction_date'' (of_opt_date date_obj) tx"
  obtain amount where a: "convert_amount_to_float rt (dict_get tx ''amount'' PNone) = Inr amount"
    using convert_amount_to_float_total by blast
  define t2 where "t2 = AList.update ''amount'' (of_opt_float amount) t1"
  obtain rs where r: "convert_risk_score_to_float rt (dict_get tx ''risk_score'' PNone) = Inr rs"
    using convert_risk_score_to_float_total by blast
  define t3 where "t3 = AList.update ''risk_score'' (of_opt_float rs) t2"
  define t4 where
    "t4 = AList.update ''is_large_transaction'' (PBool (is_large_transaction amount)) t3"
  define cb where "cb = is_crossborder_transaction rt (dict_get tx ''currency'' (PStr []))"
  define t5 where "t5 = AList.update ''is_crossborder'' (PBool cb) t4"
  define t6 where
    "t6 = AList.update ''transaction_day'' (of_opt_str (get_transaction_day date_obj)) t5"
  obtain lg where l: "calculate_amount_log amount = Inr lg"
    using calculate_amount_log_total by blast
  define out where "out = AList.update ''amount_log'' (of_opt_float lg) t6"
  have g1: "dict_get t1 ''amount'' PNone = dict_get tx ''amount'' PNone"
    unfolding t1_def by (rule dict_get_update) simp
  have g2: "dict_get t2 ''risk_score'' PNone = dict_get tx ''risk_score'' PNone"
    unfolding t2_def t1_def by (simp add: dict_get_update)
  have g4: "dict_get t4 ''currency'' (PStr []) = dict_get tx ''currency'' (PStr [])"
    unfolding t4_def t3_def t2_def t1_def by (simp add: dict_get_update)
  have run: "transform_transaction rt tx = Inr out"
    unfolding transform_transaction_def Let_def
    by (simp add: date_obj_def [symmetric] t1_def [symmetric] g1 a t2_def [symmetric] g2 r
        t3_def [symmetric] t4_def [symmetric] g4 cb_def [symmetric] t5_def [symmetric]
        t6_def [symmetric] l out_def [symmetric])
  have m: "map_of out =
     (map_of tx)(''transaction_date'' \<mapsto> of_opt_date date_obj,
       ''amount'' \<mapsto> of_opt_float amount, ''risk_score'' \<mapsto> of_opt_float rs,
       ''is_large_transaction'' \<mapsto> PBool (is_large_transaction amount),
       ''is_crossborder'' \<mapsto> PBool cb,
       ''transaction_day'' \<mapsto> of_opt_str (get_transaction_day date_obj),
       ''amount_log'' \<mapsto> of_opt_float lg)"
    unfolding out_def t6_def t5_def t4_def t3_def t2_def t1_def by (simp only: update_conv')
  have keys: "fst ` set out = fst ` set tx \<union> transform_keys"
    unfolding out_def t6_def t5_def t4_def t3_def t2_def t1_def
    by (auto simp: dom_update transform_keys_def)
  have frame: "\<forall>k. k \<notin> transform_keys \<longrightarrow> map_of out k = map_of tx k"
    unfolding m by (simp add: transform_keys_def)
  have v1: "map_of out ''transaction_date'' = Some (of_opt_date date_obj)"
    and v2: "map_of out ''amount'' = Some (of_opt_float amount)"
    and v3: "map_of out ''risk_score'' = Some (of_opt_float rs)"
    and v4: "map_of out ''is_large_transaction'' = Some (PBool (is_large_transaction amount))"
    and v5: "map_of out ''is_crossborder'' = Some (PBool cb)"
    and v6: "map_of out ''transaction_day'' = Some (of_opt_str (get_transaction_day date_obj))"
    and v7: "map_of out ''amount_log'' = Some (of_opt_float lg)"
    unfolding m by simp_all
  have n1: "map_of tx ''transaction_date'' = None \<longrightarrow>
              map_of out ''transaction_date'' = Some PNone"
    using v1 by (simp add: date_obj_def dict_get_absent)
  have n2: "map_of tx ''amount'' = None \<longrightarrow> map_of out ''amount'' = Some PNone"
    using v2 a by (auto simp: dict_get_absent)
  have n3: "map_of tx ''risk_score'' = None \<longrightarrow> map_of out ''risk_score'' = Some PNone"
    using v3 r by (auto simp: dict_get_absent)
  from run keys frame a r l v1 v2 v3 v4 v5 v6 v7 n1 n2 n3 show ?thesis
    unfolding date_obj_def cb_def by (intro exI conjI)
qed

theorem transform_transaction_frame_witness:
  "''currency'' \<notin> transform_keys \<and> map_of usd_txn ''risk_score'' = None \<and>
   (\<exists>out. transform_transaction example_runtime usd_txn = Inr out \<and>
      fst ` set out = {''transaction_date'', ''amount'', ''currency''} \<union> transform_keys \<and>
      map_of out ''currency'' = Some (PStr ''USD'') \<and>
      map_of out ''transaction_date'' = Some (PDate \<lparr>year = 2024, month = 2, day = 21\<rparr>) \<and>
      map_of out ''amount'' = Some (PFloat (Fin 5000.5)) \<and>
      map_of out ''risk_score'' = Some PNone \<and>
      map_of out ''is_large_transaction'' = Some (PBool False) \<and>
      map_of out ''is_crossborder'' = Some (PBool True) \<and>
      map_of out ''transaction_day'' = Some (PStr ''Wednesday'') \<and>
      map_of out ''amount_log'' = Some (PFloat (Fin (ln 5000.5))))"
proof -
  have 1: "''currency'' \<notin> transform_keys" by (simp add: transform_keys_def)
  have 2: "fst ` set usd_txn = {''transaction_date'', ''amount'', ''currency''}"
    by (simp add: usd_txn_def)
  have 3: "map_of usd_txn ''currency'' = Some (PStr ''USD'')" by (simp add: usd_txn_def)
  have 4: "map_of usd_txn ''risk_score'' = None" by (simp add: usd_txn_def)
  have d: "dict_get usd_txn ''transaction_date'' PNone = PStr ''2024-02-21''"
    "dict_get usd_txn ''amount'' PNone = PStr ''5000.50''"
    "dict_get usd_txn ''currency'' (PStr []) = PStr ''USD''"
    by (simp_all add: dict_get_def usd_txn_def)
  from transform_transaction_frame [of example_runtime usd_txn]
  obtain out amount risk_score amount_log
    where o: "transform_transaction example_runtime usd_txn = Inr out"
    and k: "fst ` set out = fst ` set usd_txn \<union> transform_keys"
    and f: "\<forall>k. k \<notin> transform_keys \<longrightarrow> map_of out k = map_of usd_txn k"
    and a: "convert_amount_to_float example_runtime (dict_get usd_txn ''amount'' PNone) =
              Inr amount"
    and r: "convert_risk_score_to_float example_runtime
              (dict_get usd_txn ''risk_score'' PNone) = Inr risk_score"
    and l: "calculate_amount_log amount = Inr amount_log"
    and v1: "map_of out ''transaction_date'' =
       Some (of_opt_date (convert_date_to_date_object example_runtime
         (dict_get usd_txn ''transaction_date'' PNone)))"
    and v2: "map_of out ''amount'' = Some (of_opt_float amount)"
    and v3: "map_of out ''risk_score'' = Some (of_opt_float risk_score)"
    and v4: "map_of out ''is_large_transaction'' = Some (PBool (is_large_transaction amount))"
    and v5: "map_of out ''is_crossborder'' =
       Some (PBool (is_crossborder_transaction example_runtime
         (dict_get usd_txn ''currency'' (PStr []))))"
    and v6: "map_of out ''transaction_day'' =
       Some (of_opt_str (get_transaction_day (convert_date_to_date_object example_runtime
         (dict_get usd_txn ''transaction_date'' PNone))))"
    and v7: "map_of out ''amount_log'' = Some (of_opt_float amount_log)"
    and n1: "map_of usd_txn ''transaction_date'' = None \<longrightarrow>
               map_of out ''transaction_date'' = Some PNone"
    and n2: "map_of usd_txn ''amount'' = None \<longrightarrow> map_of out ''amount'' = Some PNone"
    and n3: "map_of usd_txn ''risk_score'' = None \<longrightarrow> map_of out ''risk_score'' = Some PNone"
    by (elim exE conjE) (rule that)
  from a have am: "amount = Some (Fin 5000.5)" by (simp add: d example_amount_float)
  from l have lg: "amount_log = Some (Fin (ln 5000.5))" by (simp add: am float_le.simps)
  from f 1 have "map_of out ''currency'' = map_of usd_txn ''currency''" by blast
  with 3 have c: "map_of out ''currency'' = Some (PStr ''USD'')" by simp
  from k 2 have ks: "fst ` set out = {''transaction_date'', ''amount'', ''currency''} \<union> transform_keys"
    by simp
  from v1 have w1: "map_of out ''transaction_date'' =
      Some (PDate \<lparr>year = 2024, month = 2, day = 21\<rparr>)"
    by (simp add: d example_date_object)
  from v2 have w2: "map_of out ''amount'' = Some (PFloat (Fin 5000.5))" by (simp add: am)
  from n3 4 have w3: "map_of out ''risk_score'' = Some PNone" by simp
  from v4 have w4: "map_of out ''is_large_transaction'' = Some (PBool False)"
    by (simp add: am float_gt_def)
  from v5 have w5: "map_of out ''is_crossborder'' = Some (PBool True)"
    by (simp add: d example_crossborder)
  from v6 have w6: "map_of out ''transaction_day'' = Some (PStr ''Wednesday'')"
    by (simp add: d example_date_object example_weekday)
  from v7 have w7: "map_of out ''amount_log'' = Some (PFloat (Fin (ln 5000.5)))"
    by (simp add: lg)
  from o ks c w1 w2 w3 w4 w5 w6 w7 have
    "\<exists>out. transform_transaction example_runtime usd_txn = Inr out \<and>
      fst ` set out = {''transaction_date'', ''amount'', ''currency''} \<union> transform_keys \<and>
      map_of out ''currency'' = Some (PStr ''USD'') \<and>
      map_of out ''transaction_date'' = Some (PDate \<lparr>year = 2024, month = 2, day = 21\<rparr>) \<and>
      map_of out ''amount'' = Some (PFloat (Fin 5000.5)) \<and>
      map_of out ''risk_score'' = Some PNone \<and>
      map_of out ''is_large_transaction'' = Some (PBool False) \<and>
      map_of out ''is_crossborder'' = Some (PBool True) \<and>
      map_of out ''transaction_day'' = Some (PStr ''Wednesday'') \<and>
      map_of out ''amount_log'' = Some (PFloat (Fin (ln 5000.5)))"
    by (intro exI [of _ out] conjI)
  with 1 4 show ?thesis by (intro conjI)
qed

section \<open>The cleaner\<close>

lemma trim_whitespace_idem [simp]: "trim_whitespace (trim_whitespace v) = trim_whitespace v"
  by (cases v) simp_all

lemma isoformat_not_Nil [simp]: "isoformat dt \<noteq> []"
  by (simp add: isoformat_def pad4_def)

lemma normalize_date_cases:
  "normalize_date rt v = PNone \<or>
   (\<exists>y m d dt. make_date y m d = Some dt \<and> normalize_date rt v = PStr (strftime_ymd rt dt))"
proof (cases "truthy v")
  case False
  then show ?thesis by (simp add: normalize_date_def)
next
  case True
  let ?s = "str_strip (py_str rt v)"
  show ?thesis
  proof (cases "strptime_ymd ?s")
    case (Some dt)
    with True have "normalize_date rt v = PStr (strftime_ymd rt dt)"
      by (simp add: normalize_date_def)
    with strptime_ymd_valid [OF Some] show ?thesis by blast
  next
    case None
    show ?thesis
    proof (cases "strptime_dmy ?s")
      case (Some dt)
      with True None have "normalize_date rt v = PStr (strftime_ymd rt dt)"
        by (simp add: normalize_date_def)
      with strptime_dmy_valid [OF Some] show ?thesis by blast
    next
      case n: None
      with True None show ?thesis by (simp add: normalize_date_def)
    qed
  qed
qed

lemma normalize_date_idem:
  assumes "pads_year rt"
  shows "normalize_date rt (normalize_date rt v) = normalize_date rt v"
proof -
  have n: "normalize_date rt PNone = PNone" by (simp add: normalize_date_def)
  from normalize_date_cases [of rt v] show ?thesis
  proof
    assume "normalize_date rt v = PNone"
    with n show ?thesis by simp
  next
    assume "\<exists>y m d dt. make_date y m d = Some dt \<and> normalize_date rt v = PStr (strftime_ymd rt dt)"
    then obtain y m d dt where md: "make_date y m d = Some dt"
      and nv: "normalize_date rt v = PStr (strftime_ymd rt dt)" by blast
    note p = strftime_pads [OF assms md]
    have "normalize_date rt (PStr (isoformat dt)) = PStr (isoformat dt)"
      by (simp add: normalize_date_def strptime_isoformat [OF md] p)
    with nv p show ?thesis by simp
  qed
qed

lemma normalize_currency_cases:
  "normalize_currency rt v \<in> {PNone, PStr ''IDR'', PStr ''USD'', PStr ''SGD''}"
  by (auto simp: normalize_currency_def Let_def)

lemma normalize_currency_idem [simp]:
  "normalize_currency rt (normalize_currency rt v) = normalize_currency rt v"
proof -
  have "normalize_currency rt PNone = PNone" "normalize_currency rt (PStr ''IDR'') = PStr ''IDR''"
    "normalize_currency rt (PStr ''USD'') = PStr ''USD''"
    "normalize_currency rt (PStr ''SGD'') = PStr ''SGD''"
    by (simp_all add: normalize_currency_def str_strip_def is_space_def str_upper_def
        upper_char_def lower_letters_def upper_letters_def)
  with normalize_currency_cases [of rt v] show ?thesis by auto
qed

lemma clean_numeric_cases:
  "clean_numeric rt v = Inr PNone \<or> (\<exists>x. clean_numeric rt v = Inr (PFloat x))"
  using py_float_error [of rt v]
  by (cases "py_float rt v") (auto simp: clean_numeric_def)

lemma clean_numeric_idem:
  "clean_numeric rt v = Inr v' \<Longrightarrow> clean_numeric rt v' = Inr v'"
  using clean_numeric_cases [of rt v] by (auto simp: clean_numeric_def)

lemma clean_merchant_category_idem [simp]:
  "clean_merchant_category rt (clean_merchant_category rt v) = clean_merchant_category rt v"
proof -
  have u: "str_strip ''Unknown'' = ''Unknown''" by (simp add: str_strip_def is_space_def)
  show ?thesis
    by (cases "\<not> truthy v \<or> str_strip (py_str rt v) = []")
      (auto simp: clean_merchant_category_def u)
qed

lemma py_upper_trim_idem:
  assumes "py_upper (trim_whitespace v) = Inr v'"
  shows "py_upper (trim_whitespace v') = Inr v'"
proof -
  from assms obtain s where "v = PStr s" and v': "v' = PStr (str_upper (str_strip s))"
    by (cases v) auto
  show ?thesis by (simp add: v' str_strip_upper)
qed

lemma is_str_trim [simp]: "is_str (trim_whitespace v) = is_str v"
  by (cases v) simp_all

lemma clean_field_idem:
  assumes "clean_field rt k v = Inr v'" and p: "pads_year rt"
  shows "clean_field rt k v' = Inr v'"
proof -
  define A where "A \<longleftrightarrow> k \<in> set [''transaction_id'', ''customer_id'', ''account_id'', ''channel'',
    ''region'', ''txn_type'']"
  define B where "B \<longleftrightarrow> k \<in> set [''transaction_date'', ''value_date'']"
  define C where "C \<longleftrightarrow> k = ''currency''"
  define D where "D \<longleftrightarrow> k \<in> set [''amount'', ''risk_score'']"
  define E where "E \<longleftrightarrow> k = ''merchant_category''"
  define F where "F \<longleftrightarrow> k \<in> set [''account_type'', ''direction'']"
  have e: "\<And>w. clean_field rt k w =
     (if A then Inr (trim_whitespace w)
      else if B then Inr (normalize_date rt w)
      else if C then Inr (normalize_currency rt w)
      else if D then clean_numeric rt w
      else if E then Inr (clean_merchant_category rt w)
      else if F then (if truthy w then py_upper (trim_whitespace w) else Inr w)
      else Inr (if is_str w then trim_whitespace w else w))"
    unfolding clean_field_def A_def B_def C_def D_def E_def F_def by (rule refl)
  from assms(1) show ?thesis
    unfolding e
    by (auto simp: normalize_date_idem [OF p] split: if_splits
        dest: clean_numeric_idem py_upper_trim_idem)
qed

lemma clean_field_ok:
  assumes "k \<in> set [''account_type'', ''direction''] \<longrightarrow> \<not> truthy v \<or> is_str v"
  shows "\<exists>v'. clean_field rt k v = Inr v'"
proof -
  define F where "F \<longleftrightarrow> k \<in> set [''account_type'', ''direction'']"
  have u: "F \<Longrightarrow> \<exists>v'. (if truthy v then py_upper (trim_whitespace v) else Inr v) = Inr v'"
    using assms unfolding F_def by (cases v) auto
  from clean_numeric_cases [of rt v] have n: "\<exists>v'. clean_numeric rt v = Inr v'" by blast
  show ?thesis
    unfolding clean_field_def F_def [symmetric] using u n by (simp split: if_splits)
qed

lemma update_fresh: "k \<notin> fst ` set al \<Longrightarrow> AList.update k v al = al @ [(k, v)]"
  by (induction al) auto

lemma clean_items_Inr:
  "distinct (map fst items) \<Longrightarrow> fst ` set items \<inter> fst ` set acc = {} \<Longrightarrow>
   clean_items rt items acc = Inr out \<Longrightarrow>
     out = acc @ map (\<lambda>(k, v). (k, clean_value rt k v)) items \<and>
     (\<forall>(k, v) \<in> set items. clean_field rt k v = Inr (clean_value rt k v))"
proof (induction items arbitrary: acc)
  case Nil
  then show ?case by simp
next
  case (Cons kv items)
  obtain k v where kv: "kv = (k, v)" by (cases kv)
  from Cons.prems(3) kv obtain v' where f: "clean_field rt k v = Inr v'"
    and r: "clean_items rt items (AList.update k v' acc) = Inr out"
    by (auto split: sum.splits)
  from Cons.prems(2) kv have "k \<notin> fst ` set acc" by auto
  then have u: "AList.update k v' acc = acc @ [(k, v')]" by (rule update_fresh)
  from Cons.prems(1,2) kv have "distinct (map fst items)"
    and "fst ` set items \<inter> fst ` set (acc @ [(k, v')]) = {}" by auto
  from Cons.IH [OF this(1) this(2) r [unfolded u]] f kv
  show ?case by (simp add: clean_value_def)
qed

lemma clean_items_ok:
  "distinct (map fst items) \<Longrightarrow> fst ` set items \<inter> fst ` set acc = {} \<Longrightarrow>
   (\<forall>(k, v) \<in> set items. \<exists>v'. clean_field rt k v = Inr v') \<Longrightarrow>
     clean_items rt items acc = Inr (acc @ map (\<lambda>(k, v). (k, clean_value rt k v)) items)"
proof (induction items arbitrary: acc)
  case Nil
  then show ?case by simp
next
  case (Cons kv items)
  obtain k v where kv: "kv = (k, v)" by (cases kv)
  from Cons.prems(3) kv obtain v' where f: "clean_field rt k v = Inr v'" by auto
  from Cons.prems(2) kv have "k \<notin> fst ` set acc" by auto
  then have u: "AList.update k v' acc = acc @ [(k, v')]" by (rule update_fresh)
  from Cons.prems kv have "distinct (map fst items)"
    and "fst ` set items \<inter> fst ` set (acc @ [(k, v')]) = {}"
    and "\<forall>(k, v) \<in> set items. \<exists>v'. clean_field rt k v = Inr v'" by auto
  from Cons.IH [OF this] f kv u show ?case by (simp add: clean_value_def)
qed

lemma unparseable_clean_field:
  assumes "unparseable rt k v"
  shows "clean_field rt k v = Inr PNone"
proof -
  consider
    (date) "k = ''transaction_date'' \<or> k = ''value_date''"
      "\<not> spec_two_format_date (str_strip (py_str rt v))"
  | (currency) "k = ''currency''"
      "str_upper (str_strip (py_str rt v)) \<notin> {''IDR'', ''USD'', ''SGD''}"
  | (numeric) "k = ''amount'' \<or> k = ''risk_score''" "isl (py_float rt v)"
    using assms by (auto simp: unparseable_def split: if_splits)
  then show ?thesis
  proof cases
    case date
    from date(1) have "clean_field rt k v = Inr (normalize_date rt v)"
      by (auto simp: clean_field_def)
    moreover from date(2) have "normalize_date rt v = PNone"
      by (auto simp: normalize_date_def spec_two_format_date_def split: option.splits)
    ultimately show ?thesis by simp
  next
    case currency
    from currency(1) have "clean_field rt k v = Inr (normalize_currency rt v)"
      by (simp add: clean_field_def)
    moreover from currency(2) have "normalize_currency rt v = PNone"
      by (simp add: normalize_currency_def)
    ultimately show ?thesis by simp
  next
    case numeric
    from numeric(1) have "clean_field rt k v = clean_numeric rt v"
      by (auto simp: clean_field_def)
    moreover from numeric(2) have "clean_numeric rt v = Inr PNone"
      using py_float_error [of rt v] by (cases "py_float rt v") (auto simp: clean_numeric_def)
    ultimately show ?thesis by simp
  qed
qed

lemma map_of_map_keyed:
  "map_of (map (\<lambda>(k, v). (k, f k v)) xs) k = map_option (f k) (map_of xs k)"
  by (induction xs) auto

lemma clean_transaction_total:
  assumes "is_dict tx" and "upper_fields_textual tx"
  shows "clean_transaction rt tx = Inr (map (\<lambda>(k, v). (k, clean_value rt k v)) tx)"
proof -
  have "\<forall>(k, v) \<in> set tx. \<exists>v'. clean_field rt k v = Inr v'"
    using assms(2) clean_field_ok unfolding upper_fields_textual_def list_all_iff by fast
  with clean_items_ok [of tx "[]" rt] assms(1) show ?thesis
    by (simp add: clean_transaction_def is_dict_def)
qed

lemma clean_transaction_idem:
  assumes "is_dict x" and "clean_transaction rt x = Inr y" and p: "pads_year rt"
  shows "clean_transaction rt y = Inr y"
proof -
  let ?f = "\<lambda>(k, v). (k, clean_value rt k v)"
  from clean_items_Inr [of x "[]" rt y] assms(1,2)
  have y: "y = map ?f x" and ok: "\<forall>(k, v) \<in> set x. clean_field rt k v = Inr (clean_value rt k v)"
    by (simp_all add: clean_transaction_def is_dict_def)
  have keys: "map fst y = map fst x" by (simp add: y case_prod_unfold comp_def)
  have fixed: "\<forall>(k, w) \<in> set y. clean_field rt k w = Inr w"
    using ok clean_field_idem [OF _ p] unfolding y by fastforce
  then have "\<forall>(k, w) \<in> set y. \<exists>v'. clean_field rt k w = Inr v'" by fast
  with clean_items_ok [of y "[]" rt] assms(1) keys
  have "clean_transaction rt y = Inr (map ?f y)"
    by (simp add: clean_transaction_def is_dict_def)
  moreover have "map ?f y = y"
    using fixed by (intro map_idI) (auto simp: clean_value_def)
  ultimately show ?thesis by simp
qed

lemma spec_record_textual: "spec_record tx \<Longrightarrow> upper_fields_textual tx"
proof -
  assume a: "spec_record tx"
  have "k \<in> set [''account_type'', ''direction''] \<longrightarrow> \<not> truthy v \<or> is_str v"
    if "(k, v) \<in> set tx" for k v
  proof -
    from a that have "v = PNone \<or> is_str v \<or> (k = ''amount_anomaly'' \<and> is_bool v)"
      unfolding spec_record_def list_all_iff by fast
    then show ?thesis by auto
  qed
  then show ?thesis unfolding upper_fields_textual_def list_all_iff by fast
qed

text \<open>
  Claim C4: for every record of the specification (every value is a string or null, the
  flag \<^verbatim>\<open>amount_anomaly\<close> a boolean), with whatever malformed strings in its fields,
  \<^verbatim>\<open>clean_transaction\<close> returns a cleaned record, with the keys of the input in their
  order, and never fails; every date, currency, amount or risk score of the input that cannot
  be parsed is null in the cleaned record.
\<close>

theorem clean_transaction_never_fails:
  assumes "spec_record tx"
  shows "\<exists>out. clean_transaction rt tx = Inr out \<and> map fst out = map fst tx \<and>
           (\<forall>k v. map_of tx k = Some v \<and> unparseable rt k v \<longrightarrow> map_of out k = Some PNone)"
proof -
  let ?out = "map (\<lambda>(k, v). (k, clean_value rt k v)) tx"
  from assms have d: "is_dict tx" by (simp add: spec_record_def)
  have 1: "clean_transaction rt tx = Inr ?out"
    by (rule clean_transaction_total [OF d spec_record_textual [OF assms]])
  have 2: "map fst ?out = map fst tx" by (simp add: case_prod_unfold comp_def)
  have 3: "map_of ?out k = Some PNone" if "map_of tx k = Some v" and "unparseable rt k v" for k v
    using that unparseable_clean_field [of rt k v]
    by (simp add: map_of_map_keyed clean_value_def)
  from 1 2 3 show ?thesis by blast
qed

theorem clean_transaction_never_fails_witness:
  "spec_record garbage_txn \<and>
   (\<exists>out. clean_transaction example_runtime garbage_txn = Inr out \<and>
      map fst out = [''transaction_date'', ''currency'', ''amount'', ''risk_score'',
                     ''direction'', ''amount_anomaly''] \<and>
      map_of out ''transaction_date'' = Some PNone \<and> map_of out ''currency'' = Some PNone \<and>
      map_of out ''amount'' = Some PNone)"
proof -
  have 1: "spec_record garbage_txn" by (simp add: spec_record_def is_dict_def garbage_txn_def)
  have 3: "map_of garbage_txn ''transaction_date'' = Some (PStr ''invalid'')"
    "map_of garbage_txn ''currency'' = Some (PStr ''EUR'')"
    "map_of garbage_txn ''amount'' = Some (PStr ''abc'')"
    by (simp_all add: garbage_txn_def)
  have 4: "unparseable example_runtime ''transaction_date'' (PStr ''invalid'')"
    by (simp add: unparseable_def spec_two_format_date_def eval_defs)
  have 5: "unparseable example_runtime ''currency'' (PStr ''EUR'')"
    by (simp add: unparseable_def eval_defs)
  have 6: "unparseable example_runtime ''amount'' (PStr ''abc'')"
    by (simp add: unparseable_def eval_defs)
  have 7: "map fst garbage_txn =
             [''transaction_date'', ''currency'', ''amount'', ''risk_score'', ''direction'',
              ''amount_anomaly'']"
    by (simp add: garbage_txn_def)
  from clean_transaction_never_fails [OF 1, of example_runtime]
  obtain out where o: "clean_transaction example_runtime garbage_txn = Inr out"
    and k: "map fst out = map fst garbage_txn"
    and n: "\<forall>k v. map_of garbage_txn k = Some v \<and> unparseable example_runtime k v \<longrightarrow>
              map_of out k = Some PNone"
    by blast
  from n 3 4 5 6 have "map_of out ''transaction_date'' = Some PNone"
    "map_of out ''currency'' = Some PNone" "map_of out ''amount'' = Some PNone"
    by blast+
  with o k 7 1 show ?thesis by simp
qed

text \<open>The typing of the record matters for \<^verbatim>\<open>account_type\<close> and \<^verbatim>\<open>direction\<close> only,
  where the code calls the method \<^verbatim>\<open>upper\<close> of every true value.\<close>

lemma clean_transaction_bool_direction:
  "clean_transaction example_runtime bool_direction_txn = Inl AttributeError"
  by (simp add: clean_transaction_def bool_direction_txn_def clean_field_def str_strip_def
      is_space_def)

text \<open>On a runtime that pads the year, cleaning a cleaned record changes nothing.\<close>

lemma clean_transaction_idempotent_padded:
  assumes "pads_year rt" and "is_dict x" and "upper_fields_textual x"
  shows "\<exists>y. clean_transaction rt x = Inr y \<and> clean_transaction rt y = Inr y"
  using clean_transaction_total [OF assms(2,3), of rt]
    clean_transaction_idem [OF assms(2) _ assms(1)]
  by simp

lemma clean_transaction_example:
  "clean_transaction example_runtime messy_txn = Inr tidy_txn \<and>
   clean_transaction example_runtime tidy_txn = Inr tidy_txn"
  by (simp add: clean_transaction_def messy_txn_def tidy_txn_def clean_field_def
      normalize_date_def normalize_currency_def clean_numeric_def clean_merchant_category_def
      eval_defs)

text \<open>
  Claim C5 says that \<^verbatim>\<open>clean_transaction\<close> is idempotent. \<^verbatim>\<open>normalize_date\<close> prints the
  date with \<^verbatim>\<open>strftime('%Y-%m-%d')\<close>, and glibc prints a year below 1000 without leading
  zeros: the date \<^verbatim>\<open>0999-01-05\<close> is cleaned to \<^verbatim>\<open>999-01-05\<close>, which parses under neither
  format, so cleaning the cleaned record turns the date into null.
\<close>

theorem clean_transaction_old_year:
  "clean_transaction example_runtime old_year_txn =
     Inr [(''transaction_date'', PStr ''999-01-05'')] \<and>
   clean_transaction example_runtime [(''transaction_date'', PStr ''999-01-05'')] =
     Inr [(''transaction_date'', PNone)]"
  by (simp add: clean_transaction_def old_year_txn_def clean_field_def normalize_date_def
      eval_defs)

end
